theory Spec2Isabelle
  imports Main
begin

section \<open>The plugin manager of \<open>src/plugins/PluginManager.tsx\<close>\<close>

text \<open>
  The class \<open>PluginManager\<close> keeps a library of plugin definitions, a registry of
  running plugin processes and, beside the registry, one bookkeeping record per started
  process. The embedding below follows the source method by method.

  \<^item> A method that mutates \<open>this\<close> takes the manager and returns the manager it leaves
    behind, together with what it returns or throws: \<open>Inr v\<close> is a normal return of
    \<open>v\<close>, \<open>Inl e\<close> is the exception \<open>e\<close> reaching the caller. The manager is returned in
    both cases, since an exception does not undo the assignments made before it.
  \<^item> The operations are run one after the other. The source is asynchronous, but it is
    single-threaded: the model covers calls that are not interleaved at an \<open>await\<close>,
    and plugin code that completes (returns or throws).
  \<^item> Plugin code keeps what it was handed. The \<open>register\<close> closure of a \<open>spawn\<close> can
    be called by the plugin long after its body has returned, also after its process was
    destroyed; such a call is a step of its own, beside the public methods.
  \<^item> The objects of the library are shared by reference between the array
    \<open>pluginLibrary\<close> and whoever was handed one of them, so they live in an explicit
    store, and the library is a list of addresses. The \<open>ProcessInfo\<close> objects never
    leave the class other than as copies, so the map \<open>pluginProcessInfos\<close> holds them
    by value.
  \<^item> Plugin identities are the strings made by \<open>uuidv4\<close>; names that a JavaScript
    object inherits from its prototype are not plugin identities.
\<close>

subsection \<open>Data\<close>

type_synonym PluginId = string

type_synonym addr = nat

text \<open>The drawable surface handed to a plugin's \<open>render\<close> is opaque: a handle.\<close>

type_synonym HTMLDivElement = nat

text \<open>\<open>SerializedPlugin\<close>; the field \<open>id\<close> is named \<open>plugin_id\<close> here.\<close>

record SerializedPlugin =
  plugin_id :: PluginId
  name :: string
  code :: string
  lastEdited :: int
  enabled :: bool

text \<open>\<open>class ProcessInfo { rendered = false; hasError = false; }\<close>\<close>

record ProcessInfo =
  rendered :: bool
  hasError :: bool

definition new_ProcessInfo :: ProcessInfo where
  "new_ProcessInfo = \<lparr>rendered = False, hasError = False\<rparr>"

datatype error = TypeError | SyntaxError

datatype outcome = Returns | Raises

text \<open>
  What the manager observes of the code it does not own: each compilation of a plugin
  source, each invocation of the compiled function, and each call of a process's
  \<open>render\<close> or \<open>destroy\<close>. The manager appends to this log; it never reads it. The
  length of the log is the logical time at which a capability is called.
\<close>

datatype event =
    Compiled PluginId string
  | Invoked PluginId string
  | RenderCalled PluginId HTMLDivElement
  | DestroyCalled PluginId

text \<open>
  \<open>PluginProcess\<close>: the object a plugin hands to \<open>register\<close>. \<open>instance\<close> is the
  identity of the object. \<open>render_fn\<close> and \<open>destroy_fn\<close> are its optional methods
  (\<open>typeof process.render === 'function'\<close>): given the logical time of the call, a
  method returns or raises, so a method may fail on one call and succeed on the next.
\<close>

record PluginProcess =
  "instance" :: nat
  render_fn :: "(HTMLDivElement \<Rightarrow> nat \<Rightarrow> outcome) option"
  destroy_fn :: "(nat \<Rightarrow> outcome) option"

text \<open>
  What \<open>makePluginFn(code)\<close> and the call of its result do, as far as the manager can
  tell: \<open>new AsyncFunction(...)\<close> throws on a source that does not parse; otherwise the
  body calls \<open>plugin.register\<close> some number of times and then returns or raises. The
  JavaScript engine is a parameter \<open>engine\<close> of \<open>spawn\<close>.
\<close>

datatype pluginFn = SyntaxErr | Body "PluginProcess list" outcome

type_synonym engine = "string \<Rightarrow> pluginFn"

text \<open>
  The manager with the two collaborators it talks to. \<open>heap\<close> and \<open>nextAddr\<close> are the
  store of \<open>SerializedPlugin\<close> objects; \<open>savedPlugins\<close> is what the game manager has on
  disk; \<open>hasAddedDefaultPlugins\<close> is the item \<open>UIDataKey.hasAddedDefaultPlugins\<close> of the
  UI manager. The addresses below \<open>nextAddr\<close> are the allocated ones; what \<open>heap\<close> holds
  at the others is never read.
\<close>

record PluginManager =
  pluginLibrary :: "addr list"
  pluginProcesses :: "PluginId \<rightharpoonup> PluginProcess"
  pluginProcessInfos :: "PluginId \<rightharpoonup> ProcessInfo"
  heap :: "addr \<Rightarrow> SerializedPlugin"
  nextAddr :: addr
  savedPlugins :: "SerializedPlugin list"
  hasAddedDefaultPlugins :: bool
  trace :: "event list"

text \<open>
  The constructor, lines 73 to 82. Its arguments are the two collaborators: of the game
  manager, the plugins it has on disk; of the UI manager, the item
  \<open>hasAddedDefaultPlugins\<close>. Nothing has been allocated or logged.
\<close>

definition constructor :: "SerializedPlugin list \<Rightarrow> bool \<Rightarrow> PluginManager" where
  "constructor gameManager uiManager =
     \<lparr>pluginLibrary = [], pluginProcesses = Map.empty, pluginProcessInfos = Map.empty,
      heap = (\<lambda>_. \<lparr>plugin_id = [], name = [], code = [], lastEdited = 0, enabled = False\<rparr>),
      nextAddr = 0, savedPlugins = gameManager, hasAddedDefaultPlugins = uiManager, trace = []\<rparr>"

subsection \<open>The store and the collaborators\<close>

text \<open>A new object: an object literal, or an object built by \<open>JSON.parse\<close>.\<close>

definition alloc :: "SerializedPlugin \<Rightarrow> PluginManager \<Rightarrow> addr \<times> PluginManager" where
  "alloc v s = (nextAddr s, s\<lparr>heap := (heap s)(nextAddr s := v), nextAddr := Suc (nextAddr s)\<rparr>)"

fun alloc_plugins :: "SerializedPlugin list \<Rightarrow> PluginManager \<Rightarrow> addr list \<times> PluginManager" where
  "alloc_plugins [] s = ([], s)"
| "alloc_plugins (v # vs) s =
     (let (a, s1) = alloc v s; (as, s2) = alloc_plugins vs s1 in (a # as, s2))"

text \<open>The plugin definitions the library holds, in order.\<close>

definition library_values :: "PluginManager \<Rightarrow> SerializedPlugin list" where
  "library_values s = map (heap s) (pluginLibrary s)"

text \<open>
  Modelled from the spec: \<open>gameManager.savePlugins\<close> is not in the source. The spec
  gives the persistence collaborator \<open>savePlugins(sequence of Definition)\<close> with "last
  write wins": a save replaces what is stored by the definitions passed, as they are at
  the call.
\<close>

definition savePlugins :: "PluginManager \<Rightarrow> PluginManager" where
  "savePlugins s = s\<lparr>savedPlugins := library_values s\<rparr>"

text \<open>
  Modelled from the spec: \<open>gameManager.loadPlugins\<close> is not in the source. The spec
  gives \<open>loadPlugins() -> sequence of Definition\<close>: a load returns the definitions saved
  last, as new objects.
\<close>

definition loadPlugins :: "PluginManager \<Rightarrow> addr list \<times> PluginManager" where
  "loadPlugins s = alloc_plugins (savedPlugins s) s"

text \<open>
  \<open>JSON.stringify\<close> and \<open>JSON.parse\<close> on the plain data of this class (strings,
  booleans, integral numbers). \<open>JSON.stringify(undefined)\<close> is \<open>undefined\<close>, not a
  text; \<open>JSON.parse(undefined)\<close> parses the string "undefined", which is not JSON, and
  throws a \<open>SyntaxError\<close>. A text is represented by the value it denotes.
\<close>

definition JSON_stringify :: "'a option \<Rightarrow> 'a option" where
  "JSON_stringify x = (case x of None \<Rightarrow> None | Some v \<Rightarrow> Some v)"

definition JSON_parse :: "'a option \<Rightarrow> error + 'a option" where
  "JSON_parse t = (case t of None \<Rightarrow> Inl SyntaxError | Some v \<Rightarrow> Inr (Some v))"

text \<open>\<open>PluginManager.copy\<close>, on a value that may be \<open>undefined\<close>.\<close>

definition copy :: "'a option \<Rightarrow> error + 'a option" where
  "copy plugin = JSON_parse (JSON_stringify plugin)"

text \<open>\<open>PluginManager.copy\<close> on a library object: the parsed value is a new object.\<close>

definition copy_plugin :: "addr \<Rightarrow> PluginManager \<Rightarrow> (error + addr) \<times> PluginManager" where
  "copy_plugin a s =
     (case copy (Some (heap s a)) of
        Inl e \<Rightarrow> (Inl e, s)
      | Inr None \<Rightarrow> (Inl SyntaxError, s)
      | Inr (Some v) \<Rightarrow> (let (b, s1) = alloc v s in (Inr b, s1)))"

text \<open>
  Not a method of the class: a caller that holds a reference to a
  \<open>SerializedPlugin\<close> object assigns to its fields.
\<close>

definition caller_assigns ::
  "addr \<Rightarrow> (SerializedPlugin \<Rightarrow> SerializedPlugin) \<Rightarrow> PluginManager \<Rightarrow> PluginManager" where
  "caller_assigns a f s = s\<lparr>heap := (heap s)(a := f (heap s a))\<rparr>"

subsection \<open>The methods\<close>

text \<open>
  \<open>destroy\<close>, lines 88 to 104. \<open>destroy_try\<close> is the \<open>try\<close> with its \<open>catch\<close>: the
  handler reads \<open>this.pluginProcessInfos[id].hasError\<close>, a \<open>TypeError\<close> when there is no
  record. \<open>destroy_finally\<close> is the \<open>finally\<close> block, which runs in every case.
\<close>

definition destroy_try ::
  "PluginManager \<Rightarrow> PluginId \<Rightarrow> PluginProcess \<Rightarrow> (error + unit) \<times> PluginManager" where
  "destroy_try s i process =
     (case destroy_fn process of
        None \<Rightarrow> (Inr (), s)
      | Some f \<Rightarrow>
          (let s1 = s\<lparr>trace := trace s @ [DestroyCalled i]\<rparr> in
           case f (length (trace s)) of
             Returns \<Rightarrow> (Inr (), s1)
           | Raises \<Rightarrow>
               (case pluginProcessInfos s1 i of
                  None \<Rightarrow> (Inl TypeError, s1)
                | Some info \<Rightarrow>
                    (Inr (), s1\<lparr>pluginProcessInfos :=
                                  (pluginProcessInfos s1)(i \<mapsto> info\<lparr>hasError := True\<rparr>)\<rparr>))))"

definition destroy_finally :: "PluginManager \<Rightarrow> PluginId \<Rightarrow> PluginManager" where
  "destroy_finally s i =
     s\<lparr>pluginProcesses := (pluginProcesses s)(i := None),
       pluginProcessInfos := (pluginProcessInfos s)(i := None)\<rparr>"

definition destroy :: "PluginManager \<Rightarrow> PluginId \<Rightarrow> (error + unit) \<times> PluginManager" where
  "destroy s i =
     (case pluginProcesses s i of
        None \<Rightarrow> (Inr (), s)
      | Some process \<Rightarrow>
          (let (r, s1) = destroy_try s i process in (r, destroy_finally s1 i)))"

text \<open>\<open>getPluginFromLibrary\<close>, lines 136 to 138: the object found, not a copy of it.\<close>

definition getPluginFromLibrary :: "PluginManager \<Rightarrow> PluginId \<Rightarrow> addr option" where
  "getPluginFromLibrary s i = find (\<lambda>p. plugin_id (heap s p) = i) (pluginLibrary s)"

text \<open>
  \<open>addPluginToLibrary\<close>, lines 165 to 178. \<open>now\<close> is \<open>new Date().getTime()\<close> and
  \<open>uuid\<close> is \<open>uuidv4()\<close>.
\<close>

definition addPluginToLibrary ::
  "string \<Rightarrow> string \<Rightarrow> int \<Rightarrow> PluginId \<Rightarrow> PluginManager \<Rightarrow> (error + addr) \<times> PluginManager" where
  "addPluginToLibrary nm cd now uuid s =
     (let (newPlugin, s1) =
            alloc \<lparr>plugin_id = uuid, name = nm, code = cd, lastEdited = now, enabled = True\<rparr> s;
          s2 = s1\<lparr>pluginLibrary := pluginLibrary s1 @ [newPlugin]\<rparr>;
          s3 = savePlugins s2
      in copy_plugin newPlugin s3)"

text \<open>
  \<open>load\<close>, lines 112 to 120. \<open>load_defaults\<close> is the conditional of lines 113 to
  117. \<open>readme\<close> and \<open>finder\<close> are the constants \<open>README_PLUGIN\<close> and
  \<open>ARTIFACT_FINDER_PLUGIN\<close>, whose text is not in the source; \<open>now1\<close>, \<open>uuid1\<close>,
  \<open>now2\<close> and \<open>uuid2\<close> are the clock and \<open>uuidv4()\<close> at the two additions.
\<close>

definition load_defaults ::
  "string \<Rightarrow> string \<Rightarrow> int \<Rightarrow> PluginId \<Rightarrow> int \<Rightarrow> PluginId \<Rightarrow> PluginManager \<Rightarrow> PluginManager" where
  "load_defaults readme finder now1 uuid1 now2 uuid2 s =
     (if \<not> hasAddedDefaultPlugins s then
        (let s1 = s\<lparr>hasAddedDefaultPlugins := True\<rparr>;
             s2 = snd (addPluginToLibrary ''README'' readme now1 uuid1 s1)
         in snd (addPluginToLibrary ''Artifacts Finder'' finder now2 uuid2 s2))
      else s)"

definition load ::
  "string \<Rightarrow> string \<Rightarrow> int \<Rightarrow> PluginId \<Rightarrow> int \<Rightarrow> PluginId \<Rightarrow> PluginManager
     \<Rightarrow> (error + unit) \<times> PluginManager" where
  "load readme finder now1 uuid1 now2 uuid2 s =
     (let s1 = load_defaults readme finder now1 uuid1 now2 uuid2 s;
          (loaded, s2) = loadPlugins s1
      in (Inr (), s2\<lparr>pluginLibrary := loaded\<rparr>))"

text \<open>\<open>deletePlugin\<close>, lines 126 to 130.\<close>

definition deletePlugin :: "PluginId \<Rightarrow> PluginManager \<Rightarrow> (error + unit) \<times> PluginManager" where
  "deletePlugin pluginId s =
     (let s1 = s\<lparr>pluginLibrary := filter (\<lambda>p. plugin_id (heap s p) \<noteq> pluginId) (pluginLibrary s)\<rparr>
      in case destroy s1 pluginId of
           (Inl e, s2) \<Rightarrow> (Inl e, s2)
         | (Inr _, s2) \<Rightarrow> (Inr (), savePlugins s2))"

text \<open>\<open>overwritePlugin\<close>, lines 145 to 160. \<open>now\<close> is \<open>new Date().getTime()\<close>.\<close>

definition overwritePlugin ::
  "string \<Rightarrow> string \<Rightarrow> PluginId \<Rightarrow> int \<Rightarrow> PluginManager \<Rightarrow> (error + unit) \<times> PluginManager" where
  "overwritePlugin newName pluginCode i now s =
     (case destroy s i of
        (Inl e, s1) \<Rightarrow> (Inl e, s1)
      | (Inr _, s1) \<Rightarrow>
          (case getPluginFromLibrary s1 i of
             None \<Rightarrow> (Inr (), s1)
           | Some plugin \<Rightarrow>
               (let s2 = s1\<lparr>heap := (heap s1)(plugin := (heap s1 plugin)\<lparr>code := pluginCode\<rparr>)\<rparr>;
                    s3 = s2\<lparr>heap := (heap s2)(plugin := (heap s2 plugin)\<lparr>name := newName\<rparr>)\<rparr>;
                    s4 = s3\<lparr>heap := (heap s3)(plugin := (heap s3 plugin)\<lparr>lastEdited := now\<rparr>)\<rparr>
                in (Inr (), savePlugins s4))))"

text \<open>
  \<open>spawn\<close>, lines 185 to 214. \<open>register\<close> is the closure of lines 199 to 203.
  \<open>spawn_catch\<close> is the handler of line 210, a \<open>TypeError\<close> when there is no record.
  \<open>spawn_try\<close> is the \<open>try\<close> with its \<open>catch\<close>.
\<close>

definition register :: "PluginId \<Rightarrow> PluginProcess \<Rightarrow> PluginManager \<Rightarrow> PluginManager" where
  "register i plugin s =
     (if pluginProcesses s i = None
      then s\<lparr>pluginProcesses := (pluginProcesses s)(i \<mapsto> plugin)\<rparr>
      else s)"

definition spawn_catch :: "PluginManager \<Rightarrow> PluginId \<Rightarrow> (error + unit) \<times> PluginManager" where
  "spawn_catch s i =
     (case pluginProcessInfos s i of
        None \<Rightarrow> (Inl TypeError, s)
      | Some info \<Rightarrow>
          (Inr (), s\<lparr>pluginProcessInfos := (pluginProcessInfos s)(i \<mapsto> info\<lparr>hasError := True\<rparr>)\<rparr>))"

definition spawn_try ::
  "engine \<Rightarrow> PluginManager \<Rightarrow> PluginId \<Rightarrow> SerializedPlugin \<Rightarrow> (error + unit) \<times> PluginManager" where
  "spawn_try js s i plugin =
     (let s1 = s\<lparr>trace := trace s @ [Compiled i (code plugin)]\<rparr> in
      case js (code plugin) of
        SyntaxErr \<Rightarrow> spawn_catch s1 i
      | Body registrations out \<Rightarrow>
          (let s2 = s1\<lparr>trace := trace s1 @ [Invoked i (code plugin)]\<rparr>;
               s3 = fold (register i) registrations s2
           in case out of
                Returns \<Rightarrow> (Inr (), s3)
              | Raises \<Rightarrow> spawn_catch s3 i))"

definition spawn ::
  "engine \<Rightarrow> PluginManager \<Rightarrow> PluginId \<Rightarrow> (error + PluginProcess option) \<times> PluginManager" where
  "spawn js s i =
     (case pluginProcesses s i of
        Some running \<Rightarrow> (Inr (Some running), s)
      | None \<Rightarrow>
          (case getPluginFromLibrary s i of
             None \<Rightarrow> (Inr None, s)
           | Some a \<Rightarrow>
               (let plugin = heap s a;
                    s1 = s\<lparr>pluginProcessInfos :=
                             (pluginProcessInfos s)(plugin_id plugin \<mapsto> new_ProcessInfo)\<rparr>
                in case spawn_try js s1 i plugin of
                     (Inl e, s2) \<Rightarrow> (Inl e, s2)
                   | (Inr _, s2) \<Rightarrow> (Inr (pluginProcesses s2 (plugin_id plugin)), s2))))"

text \<open>
  \<open>render\<close>, lines 220 to 240. \<open>processInfo\<close> is the record of \<open>id\<close> after \<open>spawn\<close>;
  nothing replaces it while the capability runs, so assigning to its fields is an
  update of that record.
\<close>

definition render ::
  "engine \<Rightarrow> PluginManager \<Rightarrow> PluginId \<Rightarrow> HTMLDivElement \<Rightarrow> (error + unit) \<times> PluginManager" where
  "render js s i element =
     (case spawn js s i of
        (Inl e, s1) \<Rightarrow> (Inl e, s1)
      | (Inr process, s1) \<Rightarrow>
          (case process of
             None \<Rightarrow> (Inr (), s1)
           | Some p \<Rightarrow>
               (case render_fn p of
                  None \<Rightarrow> (Inr (), s1)
                | Some f \<Rightarrow>
                    (case pluginProcessInfos s1 i of
                       None \<Rightarrow> (Inr (), s1)
                     | Some processInfo \<Rightarrow>
                         if rendered processInfo then (Inr (), s1)
                         else
                           (let s2 = s1\<lparr>trace := trace s1 @ [RenderCalled i element]\<rparr> in
                            case f element (length (trace s1)) of
                              Returns \<Rightarrow>
                                (Inr (), s2\<lparr>pluginProcessInfos :=
                                   (pluginProcessInfos s2)(i \<mapsto> processInfo\<lparr>rendered := True\<rparr>)\<rparr>)
                            | Raises \<Rightarrow>
                                (Inr (), s2\<lparr>pluginProcessInfos :=
                                   (pluginProcessInfos s2)(i \<mapsto> processInfo\<lparr>hasError := True\<rparr>)\<rparr>))))))"

text \<open>\<open>getLibrary\<close>, lines 245 to 247: \<open>map\<close> with \<open>PluginManager.copy\<close>.\<close>

fun copy_plugins :: "addr list \<Rightarrow> PluginManager \<Rightarrow> (error + addr list) \<times> PluginManager" where
  "copy_plugins [] s = (Inr [], s)"
| "copy_plugins (a # as) s =
     (case copy_plugin a s of
        (Inl e, s1) \<Rightarrow> (Inl e, s1)
      | (Inr b, s1) \<Rightarrow>
          (case copy_plugins as s1 of
             (Inl e, s2) \<Rightarrow> (Inl e, s2)
           | (Inr bs, s2) \<Rightarrow> (Inr (b # bs), s2)))"

definition getLibrary :: "PluginManager \<Rightarrow> (error + addr list) \<times> PluginManager" where
  "getLibrary s = copy_plugins (pluginLibrary s) s"

text \<open>\<open>getProcessInfo\<close>, lines 252 to 254.\<close>

definition getProcessInfo :: "PluginManager \<Rightarrow> PluginId \<Rightarrow> error + ProcessInfo option" where
  "getProcessInfo s i = copy (pluginProcessInfos s i)"

text \<open>
  \<open>getAllProcessInfos\<close>, lines 259 to 267: one entry for each own property name of
  \<open>pluginProcessInfos\<close>, holding a copy of the record. An entry whose copy throws would
  make the whole call throw; no entry is \<open>undefined\<close>, so none does.
\<close>

definition getAllProcessInfos :: "PluginManager \<Rightarrow> (PluginId \<rightharpoonup> ProcessInfo)" where
  "getAllProcessInfos s =
     (\<lambda>i. case pluginProcessInfos s i of
            None \<Rightarrow> None
          | Some info \<Rightarrow> (case copy (Some info) of Inr (Some c) \<Rightarrow> Some c | _ \<Rightarrow> None))"

subsection \<open>What the log shows\<close>

text \<open>How often the source of a plugin was compiled, and how often it was invoked.\<close>

definition compilations :: "PluginId \<Rightarrow> event list \<Rightarrow> nat" where
  "compilations i tr =
     length (filter (\<lambda>e. case e of Compiled j _ \<Rightarrow> j = i | _ \<Rightarrow> False) tr)"

definition invocations :: "PluginId \<Rightarrow> event list \<Rightarrow> nat" where
  "invocations i tr =
     length (filter (\<lambda>e. case e of Invoked j _ \<Rightarrow> j = i | _ \<Rightarrow> False) tr)"

subsection \<open>The \<open>register\<close> closure after its \<open>spawn\<close>\<close>

text \<open>
  The closure \<open>register\<close> of lines 199 to 203 is handed to the plugin inside
  \<open>pluginHelpers\<close> when the compiled source is invoked (line 207), and nothing takes it
  back: the plugin may call it again at any later time, from a timer or a handler, with
  the same test and the same assignment. A closure for an identity exists once a source
  of that identity has been invoked; before that there is nothing to call.
\<close>

definition late_register :: "PluginId \<Rightarrow> PluginProcess \<Rightarrow> PluginManager \<Rightarrow> PluginManager" where
  "late_register i plugin s = (if 0 < invocations i (trace s) then register i plugin s else s)"

subsection \<open>Sequences of public operations and plugin callbacks\<close>

datatype op =
    Load string string int PluginId int PluginId
  | AddPluginToLibrary string string int PluginId
  | OverwritePlugin string string PluginId int
  | DeletePlugin PluginId
  | Spawn engine PluginId
  | Render engine PluginId HTMLDivElement
  | Destroy PluginId
  | LateRegister PluginId PluginProcess

fun apply_op :: "PluginManager \<Rightarrow> op \<Rightarrow> PluginManager" where
  "apply_op s (Load readme finder now1 uuid1 now2 uuid2) =
     snd (load readme finder now1 uuid1 now2 uuid2 s)"
| "apply_op s (AddPluginToLibrary nm cd now uuid) = snd (addPluginToLibrary nm cd now uuid s)"
| "apply_op s (OverwritePlugin newName pluginCode i now) =
     snd (overwritePlugin newName pluginCode i now s)"
| "apply_op s (DeletePlugin i) = snd (deletePlugin i s)"
| "apply_op s (Spawn js i) = snd (spawn js s i)"
| "apply_op s (Render js i element) = snd (render js s i element)"
| "apply_op s (Destroy i) = snd (destroy s i)"
| "apply_op s (LateRegister i plugin) = late_register i plugin s"

text \<open>
  The manager after a sequence of public operations and late calls of \<open>register\<close> on a
  new manager, built on the given collaborators.
\<close>

definition run :: "SerializedPlugin list \<Rightarrow> bool \<Rightarrow> op list \<Rightarrow> PluginManager" where
  "run gameManager uiManager ops = foldl apply_op (constructor gameManager uiManager) ops"

subsection \<open>Properties of a state and of a sequence\<close>

text \<open>The identity has a bookkeeping record if it has a live instance.\<close>

definition live_has_record :: "PluginManager \<Rightarrow> PluginId \<Rightarrow> bool" where
  "live_has_record s i = (pluginProcesses s i \<noteq> None \<longrightarrow> pluginProcessInfos s i \<noteq> None)"

text \<open>The step is a late call of the \<open>register\<close> closure of the identity.\<close>

fun registers_late :: "PluginId \<Rightarrow> op \<Rightarrow> bool" where
  "registers_late i (LateRegister j plugin) = (j = i)"
| "registers_late i x = False"

text \<open>Every object of the library has been allocated.\<close>

definition library_allocated :: "PluginManager \<Rightarrow> bool" where
  "library_allocated s = (\<forall>a \<in> set (pluginLibrary s). a < nextAddr s)"

text \<open>The instance a plugin body leaves in an empty slot: the first one it registers.\<close>

definition first_registered :: "PluginProcess list \<Rightarrow> PluginProcess option" where
  "first_registered rs = (case rs of [] \<Rightarrow> None | p # _ \<Rightarrow> Some p)"

subsection \<open>Sample plugins\<close>

text \<open>A source that returns without registering anything.\<close>

definition quiet_source :: engine where
  "quiet_source src = Body [] Returns"

text \<open>
  A \<open>destroy\<close> that raises whenever it is called, and a \<open>render\<close> that raises when
  called before logical time \<open>n\<close> and returns from then on.
\<close>

definition always_raises :: "nat \<Rightarrow> outcome" where
  "always_raises t = Raises"

definition raises_until :: "nat \<Rightarrow> HTMLDivElement \<Rightarrow> nat \<Rightarrow> outcome" where
  "raises_until n element t = (if t < n then Raises else Returns)"

text \<open>A process with both methods, and a process with none.\<close>

definition sample_process :: PluginProcess where
  "sample_process =
     \<lparr>instance = 1, render_fn = Some (raises_until 3), destroy_fn = Some always_raises\<rparr>"

definition bare_process :: PluginProcess where
  "bare_process = \<lparr>instance = 2, render_fn = None, destroy_fn = None\<rparr>"

text \<open>A source that registers two processes and returns; one that registers and raises.\<close>

definition registering_source :: engine where
  "registering_source src = Body [sample_process, bare_process] Returns"

definition raising_source :: engine where
  "raising_source src = Body [sample_process, bare_process] Raises"

text \<open>A caller's assignment \<open>plugin.name = n\<close>.\<close>

definition assign_name :: "string \<Rightarrow> SerializedPlugin \<Rightarrow> SerializedPlugin" where
  "assign_name n p = p\<lparr>name := n\<rparr>"

section \<open>What each method changes\<close>

lemma getPluginFromLibrary_id:
  "getPluginFromLibrary s i = Some a \<Longrightarrow> plugin_id (heap s a) = i"
  by (auto simp: getPluginFromLibrary_def find_Some_iff)

lemma register_empty:
  "pluginProcesses s i = None \<Longrightarrow>
     register i p s = s\<lparr>pluginProcesses := (pluginProcesses s)(i \<mapsto> p)\<rparr>"
  by (simp add: register_def)

lemma register_taken:
  "pluginProcesses s i = Some q \<Longrightarrow> register i p s = s"
  by (simp add: register_def)

lemma fold_register:
  "fold (register i) rs s =
     (if pluginProcesses s i = None
      then (case rs of [] \<Rightarrow> s | p # _ \<Rightarrow> s\<lparr>pluginProcesses := (pluginProcesses s)(i \<mapsto> p)\<rparr>)
      else s)"
proof (induction rs arbitrary: s)
  case Nil
  then show ?case by simp
next
  case (Cons r rs)
  show ?case
    by (cases "pluginProcesses s i")
      (simp_all add: Cons.IH register_empty register_taken split: list.splits)
qed

lemma spawn_running:
  "pluginProcesses s i = Some p \<Longrightarrow> spawn js s i = (Inr (Some p), s)"
  by (simp add: spawn_def)

lemma spawn_try_trace:
  "spawn_try js s i plugin = (r, s') \<Longrightarrow>
     invocations i (trace s') \<le> invocations i (trace s) + 1 \<and>
     compilations i (trace s') \<le> compilations i (trace s) + 1"
  by (auto simp: spawn_try_def spawn_catch_def fold_register invocations_def compilations_def Let_def
      split: pluginFn.splits outcome.splits option.splits if_splits list.splits)

lemma spawn_returns_registry:
  assumes "spawn js s i = (Inr r, s1)"
  shows "pluginProcesses s1 i = r"
  using assms
  by (auto simp: spawn_def Let_def getPluginFromLibrary_id split: option.splits prod.splits sum.splits)


lemma destroy_frame:
  assumes "destroy s i = (r, s')"
  shows "pluginLibrary s' = pluginLibrary s \<and> heap s' = heap s \<and> nextAddr s' = nextAddr s \<and>
         savedPlugins s' = savedPlugins s \<and> hasAddedDefaultPlugins s' = hasAddedDefaultPlugins s"
  using assms
  by (auto simp: destroy_def destroy_try_def destroy_finally_def Let_def
      split: option.splits outcome.splits)

lemma destroy_maps:
  assumes "destroy s i = (r, s')"
  shows "pluginProcesses s' = (pluginProcesses s)(i := None) \<and>
         pluginProcessInfos s' =
           (if pluginProcesses s i = None then pluginProcessInfos s
            else (pluginProcessInfos s)(i := None))"
  using assms
  by (auto simp: destroy_def destroy_try_def destroy_finally_def Let_def
      split: option.splits outcome.splits)

lemma destroy_no_throw:
  assumes "pluginProcesses s i \<noteq> None \<longrightarrow> pluginProcessInfos s i \<noteq> None"
  shows "fst (destroy s i) = Inr ()"
  using assms
  by (auto simp: destroy_def destroy_try_def destroy_finally_def Let_def
      split: option.splits outcome.splits)

lemma spawn_frame:
  assumes "spawn js s i = (r, s')"
  shows "pluginLibrary s' = pluginLibrary s \<and> heap s' = heap s \<and> nextAddr s' = nextAddr s \<and>
         savedPlugins s' = savedPlugins s \<and> hasAddedDefaultPlugins s' = hasAddedDefaultPlugins s"
  using assms
  by (auto simp: spawn_def spawn_try_def spawn_catch_def fold_register Let_def
      split: option.splits outcome.splits pluginFn.splits list.splits if_splits)

lemma spawn_others:
  assumes "spawn js s i = (r, s')" and "j \<noteq> i"
  shows "pluginProcesses s' j = pluginProcesses s j \<and> pluginProcessInfos s' j = pluginProcessInfos s j"
  using assms
  by (auto simp: spawn_def spawn_try_def spawn_catch_def fold_register Let_def getPluginFromLibrary_id
      split: option.splits outcome.splits pluginFn.splits list.splits if_splits)

lemma spawn_record:
  assumes "spawn js s i = (r, s')" and "pluginProcesses s i \<noteq> None \<longrightarrow> pluginProcessInfos s i \<noteq> None"
  shows "pluginProcesses s' i \<noteq> None \<longrightarrow> pluginProcessInfos s' i \<noteq> None"
  using assms
  by (auto simp: spawn_def spawn_try_def spawn_catch_def fold_register Let_def getPluginFromLibrary_id
      split: option.splits outcome.splits pluginFn.splits list.splits if_splits)


lemma alloc_plugins_frame:
  "alloc_plugins vs s = (as, s') \<Longrightarrow>
     pluginLibrary s' = pluginLibrary s \<and> pluginProcesses s' = pluginProcesses s \<and>
     pluginProcessInfos s' = pluginProcessInfos s \<and> savedPlugins s' = savedPlugins s \<and>
     hasAddedDefaultPlugins s' = hasAddedDefaultPlugins s \<and> trace s' = trace s"
proof (induction vs arbitrary: s as s')
  case Nil
  then show ?case by simp
next
  case (Cons v vs)
  obtain bs s2 where rest: "alloc_plugins vs (snd (alloc v s)) = (bs, s2)"
    by (cases "alloc_plugins vs (snd (alloc v s))")
  with Cons.prems have "s' = s2"
    by (simp add: alloc_def)
  with Cons.IH [OF rest] show ?case
    by (simp add: alloc_def)
qed

lemma alloc_plugins_addrs:
  "alloc_plugins vs s = (as, s') \<Longrightarrow>
     nextAddr s' = nextAddr s + length vs \<and> (\<forall>a \<in> set as. nextAddr s \<le> a \<and> a < nextAddr s + length vs)"
proof (induction vs arbitrary: s as s')
  case Nil
  then show ?case by simp
next
  case (Cons v vs)
  obtain bs s2 where rest: "alloc_plugins vs (snd (alloc v s)) = (bs, s2)"
    by (cases "alloc_plugins vs (snd (alloc v s))")
  with Cons.prems have eq: "s' = s2" "as = nextAddr s # bs"
    by (simp_all add: alloc_def)
  from Cons.IH [OF rest] eq show ?case
    by (auto simp: alloc_def)
qed

lemma alloc_plugins_old:
  "alloc_plugins vs s = (as, s') \<Longrightarrow> a < nextAddr s \<Longrightarrow> heap s' a = heap s a"
proof (induction vs arbitrary: s as s')
  case Nil
  then show ?case by simp
next
  case (Cons v vs)
  obtain bs s2 where rest: "alloc_plugins vs (snd (alloc v s)) = (bs, s2)"
    by (cases "alloc_plugins vs (snd (alloc v s))")
  with Cons.prems have eq: "s' = s2"
    by (simp add: alloc_def)
  from Cons.prems have "a < nextAddr (snd (alloc v s))"
    by (simp add: alloc_def)
  from Cons.IH [OF rest this] eq Cons.prems(2) show ?case
    by (simp add: alloc_def)
qed

lemma alloc_plugins_values:
  "alloc_plugins vs s = (as, s') \<Longrightarrow> map (heap s') as = vs"
proof (induction vs arbitrary: s as s')
  case Nil
  then show ?case by simp
next
  case (Cons v vs)
  obtain bs s2 where rest: "alloc_plugins vs (snd (alloc v s)) = (bs, s2)"
    by (cases "alloc_plugins vs (snd (alloc v s))")
  with Cons.prems have eq: "s' = s2" "as = nextAddr s # bs"
    by (simp_all add: alloc_def)
  have "heap s2 (nextAddr s) = heap (snd (alloc v s)) (nextAddr s)"
    by (rule alloc_plugins_old [OF rest]) (simp add: alloc_def)
  with Cons.IH [OF rest] eq show ?case
    by (simp add: alloc_def)
qed

lemma copy_plugin_eq:
  "copy_plugin a s = (Inr (nextAddr s), snd (alloc (heap s a) s))"
  by (simp add: copy_plugin_def copy_def JSON_parse_def JSON_stringify_def alloc_def)

lemma addPluginToLibrary_eq:
  "addPluginToLibrary nm cd now uuid s =
     (let newPlugin = \<lparr>plugin_id = uuid, name = nm, code = cd, lastEdited = now, enabled = True\<rparr>;
          h = (heap s)(nextAddr s := newPlugin)
      in (Inr (Suc (nextAddr s)),
          s\<lparr>pluginLibrary := pluginLibrary s @ [nextAddr s],
            heap := h(Suc (nextAddr s) := newPlugin),
            nextAddr := Suc (Suc (nextAddr s)),
            savedPlugins := map h (pluginLibrary s @ [nextAddr s])\<rparr>))"
  by (simp add: addPluginToLibrary_def copy_plugin_eq alloc_def savePlugins_def library_values_def Let_def)

lemma map_heap_fresh:
  "\<forall>a \<in> set as. a < (n::nat) \<Longrightarrow> n \<le> m \<Longrightarrow> map (h(m := v)) as = map h as"
  by (induction as) auto

lemma addPluginToLibrary_values:
  assumes "library_allocated s"
  shows "library_values (snd (addPluginToLibrary nm cd now uuid s)) =
           library_values s @ [\<lparr>plugin_id = uuid, name = nm, code = cd, lastEdited = now, enabled = True\<rparr>]
         \<and> savedPlugins (snd (addPluginToLibrary nm cd now uuid s)) =
           library_values (snd (addPluginToLibrary nm cd now uuid s))"
  using assms
  by (simp add: addPluginToLibrary_eq library_values_def library_allocated_def Let_def map_heap_fresh)

lemma addPluginToLibrary_allocated:
  assumes "library_allocated s"
  shows "library_allocated (snd (addPluginToLibrary nm cd now uuid s))"
  using assms
  by (auto simp: addPluginToLibrary_eq library_allocated_def Let_def)


lemma loadPlugins_result:
  assumes "loadPlugins s = (loaded, s')"
  shows "library_values (s'\<lparr>pluginLibrary := loaded\<rparr>) = savedPlugins s"
    and "savedPlugins (s'\<lparr>pluginLibrary := loaded\<rparr>) = savedPlugins s"
    and "hasAddedDefaultPlugins (s'\<lparr>pluginLibrary := loaded\<rparr>) = hasAddedDefaultPlugins s"
    and "pluginProcesses (s'\<lparr>pluginLibrary := loaded\<rparr>) = pluginProcesses s"
    and "pluginProcessInfos (s'\<lparr>pluginLibrary := loaded\<rparr>) = pluginProcessInfos s"
    and "library_allocated (s'\<lparr>pluginLibrary := loaded\<rparr>)"
  using assms alloc_plugins_values [of "savedPlugins s" s loaded s']
    alloc_plugins_frame [of "savedPlugins s" s loaded s']
    alloc_plugins_addrs [of "savedPlugins s" s loaded s']
  by (simp_all add: loadPlugins_def library_values_def library_allocated_def)

lemma load_defaults_first:
  assumes "library_allocated s" and "\<not> hasAddedDefaultPlugins s"
  shows "savedPlugins (load_defaults readme finder now1 uuid1 now2 uuid2 s) =
           library_values s @
             [\<lparr>plugin_id = uuid1, name = ''README'', code = readme, lastEdited = now1, enabled = True\<rparr>,
              \<lparr>plugin_id = uuid2, name = ''Artifacts Finder'', code = finder, lastEdited = now2,
                enabled = True\<rparr>]"
    and "hasAddedDefaultPlugins (load_defaults readme finder now1 uuid1 now2 uuid2 s)"
proof -
  let ?s1 = "s\<lparr>hasAddedDefaultPlugins := True\<rparr>"
  let ?s2 = "snd (addPluginToLibrary ''README'' readme now1 uuid1 ?s1)"
  have a1: "library_allocated ?s1" and v1: "library_values ?s1 = library_values s"
    using assms(1) by (simp_all add: library_allocated_def library_values_def)
  have a2: "library_allocated ?s2"
    by (rule addPluginToLibrary_allocated [OF a1])
  from addPluginToLibrary_values [OF a1, of "''README''" readme now1 uuid1]
    addPluginToLibrary_values [OF a2, of "''Artifacts Finder''" finder now2 uuid2] v1 assms(2)
  show "savedPlugins (load_defaults readme finder now1 uuid1 now2 uuid2 s) =
           library_values s @
             [\<lparr>plugin_id = uuid1, name = ''README'', code = readme, lastEdited = now1, enabled = True\<rparr>,
              \<lparr>plugin_id = uuid2, name = ''Artifacts Finder'', code = finder, lastEdited = now2,
                enabled = True\<rparr>]"
    by (simp add: load_defaults_def Let_def)
  from assms(2) show "hasAddedDefaultPlugins (load_defaults readme finder now1 uuid1 now2 uuid2 s)"
    by (simp add: load_defaults_def addPluginToLibrary_eq Let_def)
qed

lemma load_after:
  "library_values (snd (load readme finder now1 uuid1 now2 uuid2 s)) =
     savedPlugins (load_defaults readme finder now1 uuid1 now2 uuid2 s)"
  "savedPlugins (snd (load readme finder now1 uuid1 now2 uuid2 s)) =
     savedPlugins (load_defaults readme finder now1 uuid1 now2 uuid2 s)"
  "hasAddedDefaultPlugins (snd (load readme finder now1 uuid1 now2 uuid2 s)) =
     hasAddedDefaultPlugins (load_defaults readme finder now1 uuid1 now2 uuid2 s)"
  "library_allocated (snd (load readme finder now1 uuid1 now2 uuid2 s))"
  "pluginProcesses (snd (load readme finder now1 uuid1 now2 uuid2 s)) =
     pluginProcesses (load_defaults readme finder now1 uuid1 now2 uuid2 s)"
  "pluginProcessInfos (snd (load readme finder now1 uuid1 now2 uuid2 s)) =
     pluginProcessInfos (load_defaults readme finder now1 uuid1 now2 uuid2 s)"
  using loadPlugins_result [of "load_defaults readme finder now1 uuid1 now2 uuid2 s"
      "fst (loadPlugins (load_defaults readme finder now1 uuid1 now2 uuid2 s))"
      "snd (loadPlugins (load_defaults readme finder now1 uuid1 now2 uuid2 s))"]
  by (simp_all add: load_def Let_def case_prod_beta)

lemma load_defaults_maps:
  "pluginProcesses (load_defaults readme finder now1 uuid1 now2 uuid2 s) = pluginProcesses s"
  "pluginProcessInfos (load_defaults readme finder now1 uuid1 now2 uuid2 s) = pluginProcessInfos s"
  by (simp_all add: load_defaults_def addPluginToLibrary_eq Let_def)


lemma destroy_fields:
  "pluginLibrary (snd (destroy s i)) = pluginLibrary s"
  "heap (snd (destroy s i)) = heap s"
  "nextAddr (snd (destroy s i)) = nextAddr s"
  "savedPlugins (snd (destroy s i)) = savedPlugins s"
  "hasAddedDefaultPlugins (snd (destroy s i)) = hasAddedDefaultPlugins s"
  "pluginProcesses (snd (destroy s i)) = (pluginProcesses s)(i := None)"
  "pluginProcessInfos (snd (destroy s i)) =
     (if pluginProcesses s i = None then pluginProcessInfos s else (pluginProcessInfos s)(i := None))"
  using destroy_frame [of s i "fst (destroy s i)" "snd (destroy s i)"]
    destroy_maps [of s i "fst (destroy s i)" "snd (destroy s i)"]
  by simp_all

lemma spawn_fields:
  "pluginLibrary (snd (spawn js s i)) = pluginLibrary s"
  "heap (snd (spawn js s i)) = heap s"
  "nextAddr (snd (spawn js s i)) = nextAddr s"
  "savedPlugins (snd (spawn js s i)) = savedPlugins s"
  "hasAddedDefaultPlugins (snd (spawn js s i)) = hasAddedDefaultPlugins s"
  using spawn_frame [of js s i "fst (spawn js s i)" "snd (spawn js s i)"]
  by simp_all

lemma render_fields:
  "pluginLibrary (snd (render js s i el)) = pluginLibrary s"
  "heap (snd (render js s i el)) = heap s"
  "nextAddr (snd (render js s i el)) = nextAddr s"
  "savedPlugins (snd (render js s i el)) = savedPlugins s"
  "hasAddedDefaultPlugins (snd (render js s i el)) = hasAddedDefaultPlugins s"
  "pluginProcesses (snd (render js s i el)) = pluginProcesses (snd (spawn js s i))"
  using spawn_fields [of js s i]
  by (auto simp: render_def Let_def split: prod.splits sum.splits option.splits outcome.splits)

lemma render_infos_other:
  "j \<noteq> i \<Longrightarrow>
     pluginProcessInfos (snd (render js s i el)) j = pluginProcessInfos (snd (spawn js s i)) j"
  by (auto simp: render_def Let_def split: prod.splits sum.splits option.splits outcome.splits)

lemma render_infos_self:
  "pluginProcessInfos (snd (spawn js s i)) i \<noteq> None \<Longrightarrow>
     pluginProcessInfos (snd (render js s i el)) i \<noteq> None"
  by (auto simp: render_def Let_def split: prod.splits sum.splits option.splits outcome.splits)

lemma deletePlugin_fields:
  "pluginLibrary (snd (deletePlugin i s)) = filter (\<lambda>p. plugin_id (heap s p) \<noteq> i) (pluginLibrary s)"
  "heap (snd (deletePlugin i s)) = heap s"
  "nextAddr (snd (deletePlugin i s)) = nextAddr s"
  "hasAddedDefaultPlugins (snd (deletePlugin i s)) = hasAddedDefaultPlugins s"
  "pluginProcesses (snd (deletePlugin i s)) = (pluginProcesses s)(i := None)"
  "pluginProcessInfos (snd (deletePlugin i s)) =
     (if pluginProcesses s i = None then pluginProcessInfos s else (pluginProcessInfos s)(i := None))"
  using destroy_fields [of "s\<lparr>pluginLibrary := filter (\<lambda>p. plugin_id (heap s p) \<noteq> i) (pluginLibrary s)\<rparr>" i]
  by (auto simp: deletePlugin_def Let_def savePlugins_def split: prod.splits sum.splits)

lemma overwritePlugin_fields:
  "pluginLibrary (snd (overwritePlugin nm cd i now s)) = pluginLibrary s"
  "nextAddr (snd (overwritePlugin nm cd i now s)) = nextAddr s"
  "hasAddedDefaultPlugins (snd (overwritePlugin nm cd i now s)) = hasAddedDefaultPlugins s"
  "pluginProcesses (snd (overwritePlugin nm cd i now s)) = (pluginProcesses s)(i := None)"
  "pluginProcessInfos (snd (overwritePlugin nm cd i now s)) =
     (if pluginProcesses s i = None then pluginProcessInfos s else (pluginProcessInfos s)(i := None))"
  using destroy_fields [of s i]
  by (auto simp: overwritePlugin_def Let_def savePlugins_def split: prod.splits sum.splits option.splits)

lemma late_register_fields:
  "pluginLibrary (late_register i p s) = pluginLibrary s"
  "heap (late_register i p s) = heap s"
  "nextAddr (late_register i p s) = nextAddr s"
  "savedPlugins (late_register i p s) = savedPlugins s"
  "hasAddedDefaultPlugins (late_register i p s) = hasAddedDefaultPlugins s"
  "pluginProcessInfos (late_register i p s) = pluginProcessInfos s"
  "j \<noteq> i \<Longrightarrow> pluginProcesses (late_register i p s) j = pluginProcesses s j"
  by (simp_all add: late_register_def register_def)

lemma apply_op_record:
  assumes "live_has_record s j" and "\<not> registers_late j x"
  shows "live_has_record (apply_op s x) j"
proof (cases x)
  case (Load readme finder now1 uuid1 now2 uuid2)
  with assms show ?thesis
    by (simp add: live_has_record_def load_after load_defaults_maps)
next
  case (AddPluginToLibrary nm cd now uuid)
  with assms show ?thesis
    by (simp add: live_has_record_def addPluginToLibrary_eq Let_def)
next
  case (OverwritePlugin nm cd i now)
  with assms show ?thesis
    by (simp add: live_has_record_def overwritePlugin_fields)
next
  case (DeletePlugin i)
  with assms show ?thesis
    by (simp add: live_has_record_def deletePlugin_fields)
next
  case (Spawn js i)
  with assms
    spawn_others [of js s i "fst (spawn js s i)" "snd (spawn js s i)" j]
    spawn_record [of js s i "fst (spawn js s i)" "snd (spawn js s i)"]
  show ?thesis
    by (cases "j = i") (simp_all add: live_has_record_def)
next
  case (Render js i el)
  with assms
    spawn_others [of js s i "fst (spawn js s i)" "snd (spawn js s i)" j]
    spawn_record [of js s i "fst (spawn js s i)" "snd (spawn js s i)"]
    render_fields(6) [of js s i el] render_infos_other [of j i js s el]
    render_infos_self [of js s i el]
  show ?thesis
    by (cases "j = i") (simp_all add: live_has_record_def)
next
  case (Destroy i)
  with assms show ?thesis
    by (simp add: live_has_record_def destroy_fields)
next
  case (LateRegister i p)
  with assms show ?thesis
    by (simp add: live_has_record_def late_register_fields)
qed

lemma apply_op_allocated:
  assumes "library_allocated s"
  shows "library_allocated (apply_op s x)"
  using assms
  by (cases x)
    (auto simp: library_allocated_def load_after [unfolded library_allocated_def]
      addPluginToLibrary_eq Let_def overwritePlugin_fields deletePlugin_fields spawn_fields
      render_fields destroy_fields late_register_fields)

lemma run_snoc: "run gm ui (ops @ [x]) = apply_op (run gm ui ops) x"
  by (simp add: run_def)

lemma run_allocated: "library_allocated (run gm ui ops)"
proof (induction ops rule: rev_induct)
  case Nil
  show ?case
    by (simp add: run_def constructor_def library_allocated_def)
next
  case (snoc x ops)
  then show ?case
    by (simp add: run_snoc apply_op_allocated)
qed

lemma run_record:
  "\<not> list_ex (registers_late i) ops \<Longrightarrow> live_has_record (run gm ui ops) i"
proof (induction ops rule: rev_induct)
  case Nil
  show ?case
    by (simp add: run_def constructor_def live_has_record_def)
next
  case (snoc x ops)
  then show ?case
    by (simp add: run_snoc apply_op_record)
qed

text \<open>Unfolding the methods on a concrete manager.\<close>

lemmas run_defs = run_def constructor_def addPluginToLibrary_eq Let_def spawn_def
  getPluginFromLibrary_def spawn_try_def spawn_catch_def new_ProcessInfo_def
  quiet_source_def registering_source_def raising_source_def sample_process_def bare_process_def
  register_def render_def destroy_def destroy_try_def destroy_finally_def
  always_raises_def raises_until_def late_register_def invocations_def

lemma copy_cases:
  "copy None = Inl SyntaxError" "copy (Some v) = Inr (Some v)"
  by (simp_all add: copy_def JSON_parse_def JSON_stringify_def)

lemma getAllProcessInfos_eq: "getAllProcessInfos s = pluginProcessInfos s"
  by (rule ext) (simp add: getAllProcessInfos_def copy_cases split: option.splits)

lemma spawn_unknown:
  "pluginProcesses s i = None \<Longrightarrow> getPluginFromLibrary s i = None \<Longrightarrow> spawn js s i = (Inr None, s)"
  by (simp add: spawn_def)

lemma first_registered_fold:
  "pluginProcesses s i = None \<Longrightarrow>
     pluginProcesses (fold (register i) rs s) i = first_registered rs"
  by (simp add: fold_register first_registered_def split: list.splits)

lemma fold_register_infos:
  "pluginProcessInfos (fold (register i) rs s) = pluginProcessInfos s"
  by (simp add: fold_register split: list.splits)

lemma spawn_raising:
  assumes slot: "pluginProcesses s i = None"
    and found: "getPluginFromLibrary s i = Some a"
    and fails: "js (code (heap s a)) = Body rs Raises \<or> js (code (heap s a)) = SyntaxErr \<and> rs = []"
  shows "fst (spawn js s i) = Inr (first_registered rs)"
    and "pluginProcesses (snd (spawn js s i)) i = first_registered rs"
    and "pluginProcessInfos (snd (spawn js s i)) i = Some \<lparr>rendered = False, hasError = True\<rparr>"
proof -
  let ?s1 = "s\<lparr>pluginProcessInfos := (pluginProcessInfos s)(i \<mapsto> new_ProcessInfo)\<rparr>"
  have pid: "plugin_id (heap s a) = i"
    using found by (rule getPluginFromLibrary_id)
  have body: "spawn_try js ?s1 i (heap s a) =
      (Inr (), (fold (register i) rs (?s1\<lparr>trace := trace s @ [Compiled i (code (heap s a))] @
          (if js (code (heap s a)) = SyntaxErr then [] else [Invoked i (code (heap s a))])\<rparr>))
        \<lparr>pluginProcessInfos := (pluginProcessInfos s)(i \<mapsto> \<lparr>rendered = False, hasError = True\<rparr>)\<rparr>)"
    using fails
    by (auto simp: spawn_try_def spawn_catch_def Let_def fold_register_infos new_ProcessInfo_def)
  have sp: "spawn js s i = (Inr (pluginProcesses (snd (spawn_try js ?s1 i (heap s a))) i),
      snd (spawn_try js ?s1 i (heap s a)))"
    using slot found pid by (simp add: spawn_def Let_def body)
  have reg: "pluginProcesses (snd (spawn_try js ?s1 i (heap s a))) i = first_registered rs"
    using slot by (simp add: body first_registered_fold)
  show "fst (spawn js s i) = Inr (first_registered rs)"
    by (simp add: sp reg)
  show "pluginProcesses (snd (spawn js s i)) i = first_registered rs"
    by (simp add: sp reg)
  show "pluginProcessInfos (snd (spawn js s i)) i = Some \<lparr>rendered = False, hasError = True\<rparr>"
    by (simp add: sp body)
qed

lemma destroy_raising:
  assumes "pluginProcesses s i = Some p" and "pluginProcessInfos s i = Some info"
    and "destroy_fn p = Some f" and "f (length (trace s)) = Raises"
  shows "destroy_try s i p =
           (Inr (), s\<lparr>trace := trace s @ [DestroyCalled i],
                       pluginProcessInfos := (pluginProcessInfos s)(i \<mapsto> info\<lparr>hasError := True\<rparr>)\<rparr>)"
    and "destroy s i = (Inr (), destroy_finally (snd (destroy_try s i p)) i)"
  using assms by (simp_all add: destroy_def destroy_try_def Let_def)

lemma copy_plugins_alloc:
  "\<forall>a \<in> set as. a < nextAddr s \<Longrightarrow>
     copy_plugins as s =
       (Inr (fst (alloc_plugins (map (heap s) as) s)), snd (alloc_plugins (map (heap s) as) s))"
proof (induction as arbitrary: s)
  case Nil
  then show ?case by simp
next
  case (Cons a as)
  let ?s1 = "snd (alloc (heap s a) s)"
  have below: "\<forall>b \<in> set as. b < nextAddr s"
    using Cons.prems by simp
  then have "\<forall>b \<in> set as. b < nextAddr ?s1"
    by (auto simp: alloc_def)
  from Cons.IH [OF this] have rest:
    "copy_plugins as ?s1 =
       (Inr (fst (alloc_plugins (map (heap ?s1) as) ?s1)), snd (alloc_plugins (map (heap ?s1) as) ?s1))" .
  have same: "map (heap ?s1) as = map (heap s) as"
    using below by (simp add: alloc_def map_heap_fresh [of as "nextAddr s"])
  show ?case
    by (simp add: copy_plugin_eq rest same case_prod_beta) (simp add: alloc_def)
qed

lemma getLibrary_values:
  assumes "library_allocated s"
  shows "fst (getLibrary s) = Inr (fst (alloc_plugins (library_values s) s))"
    and "map (heap (snd (getLibrary s))) (fst (alloc_plugins (library_values s) s)) = library_values s"
proof -
  have eq: "getLibrary s =
      (Inr (fst (alloc_plugins (library_values s) s)), snd (alloc_plugins (library_values s) s))"
    using assms by (simp add: getLibrary_def library_values_def library_allocated_def copy_plugins_alloc)
  show "fst (getLibrary s) = Inr (fst (alloc_plugins (library_values s) s))"
    by (simp add: eq)
  show "map (heap (snd (getLibrary s))) (fst (alloc_plugins (library_values s) s)) = library_values s"
    using alloc_plugins_values [of "library_values s" s] by (simp add: eq)
qed

lemma getPluginFromLibrary_values:
  "(getPluginFromLibrary s i = None) = (\<forall>p \<in> set (library_values s). plugin_id p \<noteq> i)"
  by (auto simp: getPluginFromLibrary_def library_values_def find_None_iff)

lemma deletePlugin_values:
  "library_values (snd (deletePlugin i s)) = filter (\<lambda>p. plugin_id p \<noteq> i) (library_values s)"
  by (simp add: library_values_def deletePlugin_fields filter_map comp_def)

lemma deletePlugin_returns:
  assumes "pluginProcesses s i \<noteq> None \<longrightarrow> pluginProcessInfos s i \<noteq> None"
  shows "fst (deletePlugin i s) = Inr ()"
    and "savedPlugins (snd (deletePlugin i s)) = library_values (snd (deletePlugin i s))"
proof -
  let ?s1 = "s\<lparr>pluginLibrary := filter (\<lambda>p. plugin_id (heap s p) \<noteq> i) (pluginLibrary s)\<rparr>"
  have "fst (destroy ?s1 i) = Inr ()"
    using assms by (intro destroy_no_throw) simp
  then have eq: "deletePlugin i s = (Inr (), savePlugins (snd (destroy ?s1 i)))"
    by (cases "destroy ?s1 i") (simp add: deletePlugin_def Let_def)
  show "fst (deletePlugin i s) = Inr ()"
    by (simp add: eq)
  show "savedPlugins (snd (deletePlugin i s)) = library_values (snd (deletePlugin i s))"
    by (simp add: eq savePlugins_def library_values_def)
qed

lemma deletePlugin_saved:
  assumes "fst (deletePlugin i s) = Inr ()"
  shows "savedPlugins (snd (deletePlugin i s)) = library_values (snd (deletePlugin i s))"
proof -
  let ?s1 = "s\<lparr>pluginLibrary := filter (\<lambda>p. plugin_id (heap s p) \<noteq> i) (pluginLibrary s)\<rparr>"
  obtain r s2 where d: "destroy ?s1 i = (r, s2)"
    by (cases "destroy ?s1 i")
  with assms show ?thesis
    by (cases r) (simp_all add: deletePlugin_def Let_def savePlugins_def library_values_def)
qed

lemmas run_more = run_defs deletePlugin_def overwritePlugin_def savePlugins_def library_values_def
  getProcessInfo_def copy_cases getAllProcessInfos_eq






lemma render_live:
  assumes "pluginProcesses s i = Some p"
  shows "render js s i el =
     (case render_fn p of
        None \<Rightarrow> (Inr (), s)
      | Some f \<Rightarrow>
          (case pluginProcessInfos s i of
             None \<Rightarrow> (Inr (), s)
           | Some info \<Rightarrow>
               if rendered info then (Inr (), s)
               else (Inr (),
                 s\<lparr>trace := trace s @ [RenderCalled i el],
                   pluginProcessInfos := (pluginProcessInfos s)
                     (i \<mapsto> (case f el (length (trace s)) of
                             Returns \<Rightarrow> info\<lparr>rendered := True\<rparr>
                           | Raises \<Rightarrow> info\<lparr>hasError := True\<rparr>))\<rparr>)))"
  using assms
  by (simp add: render_def spawn_running Let_def split: option.splits outcome.splits)

lemma render_after_spawn:
  assumes "spawn js s i = (Inr (Some p), s1)"
  shows "render js s i el = render js' s1 i el"
proof -
  have "pluginProcesses s1 i = Some p"
    using assms by (rule spawn_returns_registry)
  then have "spawn js' s1 i = (Inr (Some p), s1)"
    by (rule spawn_running)
  with assms show ?thesis
    by (simp add: render_def)
qed

lemma render_only_when:
  assumes grew: "trace (snd (render js s i el)) \<noteq> trace (snd (spawn js s i))"
  shows "\<exists>p f info. fst (spawn js s i) = Inr (Some p) \<and>
           pluginProcesses (snd (spawn js s i)) i = Some p \<and> render_fn p = Some f \<and>
           pluginProcessInfos (snd (spawn js s i)) i = Some info \<and> \<not> rendered info \<and>
           trace (snd (render js s i el)) = trace (snd (spawn js s i)) @ [RenderCalled i el]"
proof (cases "spawn js s i")
  case (Pair r s1)
  show ?thesis
  proof (cases r)
    case (Inl e)
    with Pair grew show ?thesis
      by (simp add: render_def)
  next
    case (Inr process)
    show ?thesis
    proof (cases process)
      case None
      with Pair Inr grew show ?thesis
        by (simp add: render_def)
    next
      case (Some p)
      with Pair Inr have sp: "spawn js s i = (Inr (Some p), s1)"
        by simp
      then have live: "pluginProcesses s1 i = Some p"
        by (rule spawn_returns_registry)
      from grew sp have "trace (snd (render js s1 i el)) \<noteq> trace s1"
        by (simp add: render_after_spawn [OF sp, of el js])
      with live sp show ?thesis
        by (auto simp: render_after_spawn [OF sp, of el js] render_live [OF live]
            split: option.splits if_splits)
    qed
  qed
qed

lemma render_attempt:
  assumes sp: "fst (spawn js s i) = Inr (Some p)" and cap: "render_fn p = Some f"
    and rec: "pluginProcessInfos (snd (spawn js s i)) i = Some info" and fresh: "\<not> rendered info"
  shows "fst (render js s i el) = Inr ()"
    and "trace (snd (render js s i el)) = trace (snd (spawn js s i)) @ [RenderCalled i el]"
    and "pluginProcesses (snd (render js s i el)) i = Some p"
    and "pluginProcessInfos (snd (render js s i el)) i =
           Some (case f el (length (trace (snd (spawn js s i)))) of
                   Returns \<Rightarrow> info\<lparr>rendered := True\<rparr>
                 | Raises \<Rightarrow> info\<lparr>hasError := True\<rparr>)"
proof -
  from sp have eq: "spawn js s i = (Inr (Some p), snd (spawn js s i))"
    by (cases "spawn js s i") simp
  then have live: "pluginProcesses (snd (spawn js s i)) i = Some p"
    by (rule spawn_returns_registry)
  note r = render_after_spawn [OF eq, of el js] render_live [OF live, of js el]
  show "fst (render js s i el) = Inr ()"
    using cap rec fresh by (simp add: r)
  show "trace (snd (render js s i el)) = trace (snd (spawn js s i)) @ [RenderCalled i el]"
    using cap rec fresh by (simp add: r)
  show "pluginProcesses (snd (render js s i el)) i = Some p"
    using cap rec fresh live by (simp add: r)
  show "pluginProcessInfos (snd (render js s i el)) i =
           Some (case f el (length (trace (snd (spawn js s i)))) of
                   Returns \<Rightarrow> info\<lparr>rendered := True\<rparr>
                 | Raises \<Rightarrow> info\<lparr>hasError := True\<rparr>)"
    using cap rec fresh by (simp add: r)
qed

lemma render_rendered:
  assumes "pluginProcesses s i = Some p" and "pluginProcessInfos s i = Some info" and "rendered info"
  shows "render js s i el = (Inr (), s)"
  using assms by (simp add: render_live split: option.splits)

lemma render_retry:
  assumes "pluginProcesses s i = Some p" and "render_fn p = Some f"
    and "pluginProcessInfos s i = Some info" and "\<not> rendered info"
  shows "trace (snd (render js s i el)) = trace s @ [RenderCalled i el]"
  using assms by (simp add: render_live)

lemma render_success:
  assumes sp: "fst (spawn js s i) = Inr (Some p)" and cap: "render_fn p = Some f"
    and rec: "pluginProcessInfos (snd (spawn js s i)) i = Some info" and fresh: "\<not> rendered info"
    and ok: "f el (length (trace (snd (spawn js s i)))) = Returns"
  shows "pluginProcessInfos (snd (render js s i el)) i = Some (info\<lparr>rendered := True\<rparr>)"
    and "render js' (snd (render js s i el)) i el' = (Inr (), snd (render js s i el))"
proof -
  note att = render_attempt [OF sp cap rec fresh, of el]
  show marked: "pluginProcessInfos (snd (render js s i el)) i = Some (info\<lparr>rendered := True\<rparr>)"
    using ok by (simp add: att(4))
  show "render js' (snd (render js s i el)) i el' = (Inr (), snd (render js s i el))"
    by (rule render_rendered [OF att(3) marked]) simp
qed

lemma render_failure:
  assumes sp: "fst (spawn js s i) = Inr (Some p)" and cap: "render_fn p = Some f"
    and rec: "pluginProcessInfos (snd (spawn js s i)) i = Some info" and fresh: "\<not> rendered info"
    and bad: "f el (length (trace (snd (spawn js s i)))) = Raises"
  shows "pluginProcessInfos (snd (render js s i el)) i = Some (info\<lparr>hasError := True\<rparr>)"
    and "trace (snd (render js' (snd (render js s i el)) i el')) =
           trace (snd (render js s i el)) @ [RenderCalled i el']"
proof -
  note att = render_attempt [OF sp cap rec fresh, of el]
  show failed: "pluginProcessInfos (snd (render js s i el)) i = Some (info\<lparr>hasError := True\<rparr>)"
    using bad by (simp add: att(4))
  show "trace (snd (render js' (snd (render js s i el)) i el')) =
           trace (snd (render js s i el)) @ [RenderCalled i el']"
    by (rule render_retry [OF att(3) cap failed]) (simp add: fresh)
qed

lemma load_defaults_later:
  "hasAddedDefaultPlugins s \<Longrightarrow> load_defaults readme finder now1 uuid1 now2 uuid2 s = s"
  by (simp add: load_defaults_def)

lemma load_returns: "fst (load readme finder now1 uuid1 now2 uuid2 s) = Inr ()"
  by (simp add: load_def Let_def case_prod_beta)

lemma load_first:
  assumes "library_allocated s" and "\<not> hasAddedDefaultPlugins s"
  shows "library_values (snd (load readme finder now1 uuid1 now2 uuid2 s)) =
           library_values s @
             [\<lparr>plugin_id = uuid1, name = ''README'', code = readme, lastEdited = now1, enabled = True\<rparr>,
              \<lparr>plugin_id = uuid2, name = ''Artifacts Finder'', code = finder, lastEdited = now2,
                enabled = True\<rparr>]"
    and "savedPlugins (snd (load readme finder now1 uuid1 now2 uuid2 s)) =
           library_values (snd (load readme finder now1 uuid1 now2 uuid2 s))"
    and "hasAddedDefaultPlugins (snd (load readme finder now1 uuid1 now2 uuid2 s))"
  using load_defaults_first [OF assms, of readme finder now1 uuid1 now2 uuid2]
  by (simp_all add: load_after)

lemma load_again:
  assumes "hasAddedDefaultPlugins s" and "savedPlugins s = library_values s"
  shows "library_values (snd (load readme finder now1 uuid1 now2 uuid2 s)) = library_values s"
    and "savedPlugins (snd (load readme finder now1 uuid1 now2 uuid2 s)) = savedPlugins s"
  using assms by (simp_all add: load_after load_defaults_later)

section \<open>The claims\<close>

subsection \<open>Spawning is idempotent\<close>

text \<open>
  Claim C1. When a plugin identity has a live instance in the registry, \<open>spawn\<close>
  returns that instance and leaves the manager as it was: nothing is compiled, nothing
  is invoked; so does a second \<open>spawn\<close> after it, whatever the plugin source would do
  now. Hence, when a call of \<open>spawn\<close> has returned an instance, a second call with no
  \<open>destroy\<close> between them returns the same instance and changes nothing, and the two
  calls together have compiled and invoked the source at most once.
\<close>

theorem spawn_idempotent:
  "(pluginProcesses s i = Some p \<longrightarrow>
      spawn js s i = (Inr (Some p), s) \<and>
      spawn js' (snd (spawn js s i)) i = (Inr (Some p), s)) \<and>
   (spawn js s i = (Inr (Some p), s1) \<longrightarrow>
      spawn js' s1 i = (Inr (Some p), s1) \<and>
      compilations i (trace s1) \<le> compilations i (trace s) + 1 \<and>
      invocations i (trace s1) \<le> invocations i (trace s) + 1)"
proof (intro conjI impI)
  assume live: "pluginProcesses s i = Some p"
  then show "spawn js s i = (Inr (Some p), s)"
    by (rule spawn_running)
  with live show "spawn js' (snd (spawn js s i)) i = (Inr (Some p), s)"
    by (simp add: spawn_running)
next
  assume first: "spawn js s i = (Inr (Some p), s1)"
  then have "pluginProcesses s1 i = Some p"
    by (rule spawn_returns_registry)
  then show "spawn js' s1 i = (Inr (Some p), s1)"
    by (rule spawn_running)
  show "compilations i (trace s1) \<le> compilations i (trace s) + 1"
    using first spawn_try_trace
    by (fastforce simp: spawn_def Let_def split: option.splits prod.splits sum.splits)
  show "invocations i (trace s1) \<le> invocations i (trace s) + 1"
    using first spawn_try_trace
    by (fastforce simp: spawn_def Let_def split: option.splits prod.splits sum.splits)
qed

theorem spawn_idempotent_witness:
  "pluginProcesses
     (run [] False [AddPluginToLibrary ''X'' ''c'' 5 ''u1'', Spawn registering_source ''u1''])
     ''u1'' = Some sample_process \<and>
   fst (spawn quiet_source
     (run [] False [AddPluginToLibrary ''X'' ''c'' 5 ''u1'', Spawn registering_source ''u1''])
     ''u1'') = Inr (Some sample_process) \<and>
   invocations ''u1'' (trace (snd (spawn quiet_source
     (run [] False [AddPluginToLibrary ''X'' ''c'' 5 ''u1'', Spawn registering_source ''u1''])
     ''u1''))) = 1 \<and>
   fst (spawn registering_source (run [] False [AddPluginToLibrary ''X'' ''c'' 5 ''u1'']) ''u1'') =
     Inr (Some sample_process) \<and>
   fst (spawn quiet_source
     (snd (spawn registering_source (run [] False [AddPluginToLibrary ''X'' ''c'' 5 ''u1'']) ''u1''))
     ''u1'') = Inr (Some sample_process)"
proof -
  let ?added = "run [] False [AddPluginToLibrary ''X'' ''c'' 5 ''u1'']"
  let ?spawned = "run [] False [AddPluginToLibrary ''X'' ''c'' 5 ''u1'', Spawn registering_source ''u1'']"
  have live: "pluginProcesses ?spawned ''u1'' = Some sample_process"
    by (simp add: run_defs)
  have tr: "trace ?spawned = [Compiled ''u1'' ''c'', Invoked ''u1'' ''c'']"
    by (simp add: run_defs)
  have first: "fst (spawn registering_source ?added ''u1'') = Inr (Some sample_process)"
    by (simp add: run_defs)
  then have pair: "spawn registering_source ?added ''u1'' =
      (Inr (Some sample_process), snd (spawn registering_source ?added ''u1''))"
    by (cases "spawn registering_source ?added ''u1''") simp
  from live spawn_idempotent [where s = ?spawned and i = "''u1''" and p = sample_process
      and js = quiet_source]
  have again: "spawn quiet_source ?spawned ''u1'' = (Inr (Some sample_process), ?spawned)"
    by blast
  from pair spawn_idempotent [where js = registering_source and s = ?added and i = "''u1''"
      and p = sample_process and ?s1.0 = "snd (spawn registering_source ?added ''u1'')"
      and js' = quiet_source]
  have "spawn quiet_source (snd (spawn registering_source ?added ''u1'')) ''u1'' =
      (Inr (Some sample_process), snd (spawn registering_source ?added ''u1''))"
    by blast
  with live tr first again show ?thesis
    by (simp add: invocations_def)
qed

text \<open>
  Without an instance in the registry there is nothing to return: a source that
  registers nothing is compiled and invoked again by the next \<open>spawn\<close>.
\<close>

lemma spawn_again_without_instance:
  "invocations ''u1'' (trace
     (run [] False [AddPluginToLibrary ''X'' ''c'' 5 ''u1'', Spawn quiet_source ''u1'',
        Spawn quiet_source ''u1''])) = 2"
  by (simp add: run_defs invocations_def)

subsection \<open>Destroying cleans up\<close>

text \<open>
  In every manager, \<open>destroy\<close> of an identity with a live instance leaves neither a
  registry entry nor a bookkeeping record for it, whatever the instance's \<open>destroy\<close>
  does and whether or not \<open>destroy\<close> returns normally.
\<close>

lemma destroy_removes_entries:
  assumes "pluginProcesses s i = Some p"
  shows "pluginProcesses (snd (destroy s i)) i = None"
    and "pluginProcessInfos (snd (destroy s i)) i = None"
  using assms by (simp_all add: destroy_fields)

text \<open>
  When the identity has a bookkeeping record, \<open>destroy\<close> returns normally, and when the
  instance's \<open>destroy\<close> raises, the \<open>catch\<close> sets \<open>hasError = true\<close> on the record
  before the \<open>finally\<close> block deletes it.
\<close>

lemma destroy_with_record:
  assumes "pluginProcesses s i = Some p" and "pluginProcessInfos s i = Some info"
  shows "fst (destroy s i) = Inr ()"
    and "destroy_fn p = Some f \<and> f (length (trace s)) = Raises \<longrightarrow>
           pluginProcessInfos (snd (destroy_try s i p)) i = Some (info\<lparr>hasError := True\<rparr>) \<and>
           destroy s i = (Inr (), destroy_finally (snd (destroy_try s i p)) i)"
proof -
  show "fst (destroy s i) = Inr ()"
    using assms by (simp add: destroy_no_throw)
  show "destroy_fn p = Some f \<and> f (length (trace s)) = Raises \<longrightarrow>
           pluginProcessInfos (snd (destroy_try s i p)) i = Some (info\<lparr>hasError := True\<rparr>) \<and>
           destroy s i = (Inr (), destroy_finally (snd (destroy_try s i p)) i)"
    using assms destroy_raising [of s i p info f] by simp
qed

text \<open>
  Claim C2, at a failing input. A plugin is added and spawned; its source registers a
  process whose \<open>destroy\<close> raises. The process is destroyed, which deletes its entry and
  its record. The plugin then calls the \<open>register\<close> closure it was handed once more: the
  slot is empty, so the process is installed again, and nothing creates a record. The
  identity now has a live instance and no bookkeeping record. In \<open>destroy\<close> of this
  identity the instance's \<open>destroy\<close> raises, the \<open>catch\<close> reads \<open>hasError\<close> of a record
  that is not there, and the \<open>TypeError\<close> of that read reaches the caller; no
  \<open>hasError\<close> is recorded. The \<open>finally\<close> block still deletes the entry.
\<close>

theorem destroy_throws_without_record:
  "pluginProcesses
     (run [] False [AddPluginToLibrary ''X'' ''c'' 5 ''u1'', Spawn registering_source ''u1'',
        Destroy ''u1'', LateRegister ''u1'' sample_process]) ''u1'' = Some sample_process \<and>
   pluginProcessInfos
     (run [] False [AddPluginToLibrary ''X'' ''c'' 5 ''u1'', Spawn registering_source ''u1'',
        Destroy ''u1'', LateRegister ''u1'' sample_process]) ''u1'' = None \<and>
   destroy_fn sample_process = Some always_raises \<and>
   fst (destroy
     (run [] False [AddPluginToLibrary ''X'' ''c'' 5 ''u1'', Spawn registering_source ''u1'',
        Destroy ''u1'', LateRegister ''u1'' sample_process]) ''u1'') = Inl TypeError \<and>
   pluginProcesses (snd (destroy
     (run [] False [AddPluginToLibrary ''X'' ''c'' 5 ''u1'', Spawn registering_source ''u1'',
        Destroy ''u1'', LateRegister ''u1'' sample_process]) ''u1'')) ''u1'' = None \<and>
   pluginProcessInfos (snd (destroy
     (run [] False [AddPluginToLibrary ''X'' ''c'' 5 ''u1'', Spawn registering_source ''u1'',
        Destroy ''u1'', LateRegister ''u1'' sample_process]) ''u1'')) ''u1'' = None"
  by (simp add: run_defs)

subsection \<open>A failing spawn is contained\<close>

text \<open>
  Claim C3. Let an identity be in the library and have no live instance, and let the
  invocation of its compiled source raise (or the source not compile). Then \<open>spawn\<close>
  returns normally, its result and the registry slot are the instance the body registered
  first, if any, and the bookkeeping record created for the identity has
  \<open>hasError = true\<close> (and \<open>rendered = false\<close>). Registration is first-wins:
  \<open>register\<close> installs the instance in an empty slot, leaves the manager unchanged when
  the slot is taken, and a second \<open>register\<close> after a first changes nothing.
\<close>

theorem spawn_failure_contained:
  "(pluginProcesses s i = None \<and> getPluginFromLibrary s i = Some a \<and>
    (js (code (heap s a)) = Body rs Raises \<or> js (code (heap s a)) = SyntaxErr \<and> rs = []) \<longrightarrow>
      fst (spawn js s i) = Inr (first_registered rs) \<and>
      pluginProcesses (snd (spawn js s i)) i = first_registered rs \<and>
      pluginProcessInfos (snd (spawn js s i)) i = Some \<lparr>rendered = False, hasError = True\<rparr>) \<and>
   (pluginProcesses s i = None \<longrightarrow> pluginProcesses (register i p s) i = Some p) \<and>
   (pluginProcesses s i = Some q \<longrightarrow> register i p s = s) \<and>
   register i p' (register i p s) = register i p s"
proof (intro conjI impI)
  assume h: "pluginProcesses s i = None \<and> getPluginFromLibrary s i = Some a \<and>
    (js (code (heap s a)) = Body rs Raises \<or> js (code (heap s a)) = SyntaxErr \<and> rs = [])"
  then show "fst (spawn js s i) = Inr (first_registered rs)"
    using spawn_raising(1) by blast
  from h show "pluginProcesses (snd (spawn js s i)) i = first_registered rs"
    using spawn_raising(2) by blast
  from h show "pluginProcessInfos (snd (spawn js s i)) i = Some \<lparr>rendered = False, hasError = True\<rparr>"
    using spawn_raising(3) by blast
next
  assume "pluginProcesses s i = None"
  then show "pluginProcesses (register i p s) i = Some p"
    by (simp add: register_def)
next
  assume "pluginProcesses s i = Some q"
  then show "register i p s = s"
    by (rule register_taken)
next
  show "register i p' (register i p s) = register i p s"
    by (simp add: register_def)
qed

theorem spawn_failure_contained_witness:
  "pluginProcesses (run [] False [AddPluginToLibrary ''X'' ''c'' 5 ''u1'']) ''u1'' = None \<and>
   getPluginFromLibrary (run [] False [AddPluginToLibrary ''X'' ''c'' 5 ''u1'']) ''u1'' = Some 0 \<and>
   raising_source (code (heap (run [] False [AddPluginToLibrary ''X'' ''c'' 5 ''u1'']) 0)) =
     Body [sample_process, bare_process] Raises \<and>
   fst (spawn raising_source (run [] False [AddPluginToLibrary ''X'' ''c'' 5 ''u1'']) ''u1'') =
     Inr (Some sample_process) \<and>
   pluginProcesses
     (snd (spawn raising_source (run [] False [AddPluginToLibrary ''X'' ''c'' 5 ''u1'']) ''u1''))
     ''u1'' = Some sample_process \<and>
   pluginProcessInfos
     (snd (spawn raising_source (run [] False [AddPluginToLibrary ''X'' ''c'' 5 ''u1'']) ''u1''))
     ''u1'' = Some \<lparr>rendered = False, hasError = True\<rparr>"
proof -
  let ?s = "run [] False [AddPluginToLibrary ''X'' ''c'' 5 ''u1'']"
  have h: "pluginProcesses ?s ''u1'' = None" "getPluginFromLibrary ?s ''u1'' = Some 0"
    "raising_source (code (heap ?s 0)) = Body [sample_process, bare_process] Raises"
    by (simp_all add: run_def constructor_def addPluginToLibrary_eq Let_def
        getPluginFromLibrary_def raising_source_def)
  with spawn_failure_contained
    [of ?s "''u1''" 0 raising_source "[sample_process, bare_process]"]
  show ?thesis
    by (simp add: first_registered_def)
qed

subsection \<open>Rendering at most once\<close>

text \<open>
  Claim C4. \<open>render\<close> first spawns. It calls the instance's \<open>render\<close> only when the
  spawn returned a live instance, the instance has a \<open>render\<close> method, the identity has
  a bookkeeping record and that record has \<open>rendered = false\<close>; the call is then the one
  event \<open>render\<close> adds to the log. When these conditions hold, \<open>render\<close> returns
  normally whatever the method does. If the method returns, the record gets
  \<open>rendered = true\<close>, and a following \<open>render\<close> changes nothing (it calls nothing). If
  the method raises, the record gets \<open>hasError = true\<close> and keeps \<open>rendered = false\<close>,
  and a following \<open>render\<close> calls the method again. In general, with a live instance
  whose record has \<open>rendered = true\<close>, \<open>render\<close> changes nothing; the record stays until
  \<open>destroy\<close> deletes it.
\<close>

theorem render_at_most_once:
  "(trace (snd (render js s i el)) \<noteq> trace (snd (spawn js s i)) \<longrightarrow>
      (\<exists>p f info. fst (spawn js s i) = Inr (Some p) \<and>
         pluginProcesses (snd (spawn js s i)) i = Some p \<and> render_fn p = Some f \<and>
         pluginProcessInfos (snd (spawn js s i)) i = Some info \<and> \<not> rendered info \<and>
         trace (snd (render js s i el)) = trace (snd (spawn js s i)) @ [RenderCalled i el])) \<and>
   (fst (spawn js s i) = Inr (Some p) \<and> render_fn p = Some f \<and>
    pluginProcessInfos (snd (spawn js s i)) i = Some info \<and> \<not> rendered info \<longrightarrow>
      fst (render js s i el) = Inr () \<and>
      trace (snd (render js s i el)) = trace (snd (spawn js s i)) @ [RenderCalled i el] \<and>
      (f el (length (trace (snd (spawn js s i)))) = Returns \<longrightarrow>
         pluginProcessInfos (snd (render js s i el)) i = Some (info\<lparr>rendered := True\<rparr>) \<and>
         render js' (snd (render js s i el)) i el' = (Inr (), snd (render js s i el))) \<and>
      (f el (length (trace (snd (spawn js s i)))) = Raises \<longrightarrow>
         pluginProcessInfos (snd (render js s i el)) i = Some (info\<lparr>hasError := True\<rparr>) \<and>
         \<not> rendered (info\<lparr>hasError := True\<rparr>) \<and>
         trace (snd (render js' (snd (render js s i el)) i el')) =
           trace (snd (render js s i el)) @ [RenderCalled i el'])) \<and>
   (pluginProcesses s i = Some p \<and> pluginProcessInfos s i = Some info \<and> rendered info \<longrightarrow>
      render js s i el = (Inr (), s))"
proof (intro conjI impI)
  assume "trace (snd (render js s i el)) \<noteq> trace (snd (spawn js s i))"
  then show "\<exists>p f info. fst (spawn js s i) = Inr (Some p) \<and>
         pluginProcesses (snd (spawn js s i)) i = Some p \<and> render_fn p = Some f \<and>
         pluginProcessInfos (snd (spawn js s i)) i = Some info \<and> \<not> rendered info \<and>
         trace (snd (render js s i el)) = trace (snd (spawn js s i)) @ [RenderCalled i el]"
    by (rule render_only_when)
next
  assume "fst (spawn js s i) = Inr (Some p) \<and> render_fn p = Some f \<and>
    pluginProcessInfos (snd (spawn js s i)) i = Some info \<and> \<not> rendered info"
  then show "fst (render js s i el) = Inr ()"
    using render_attempt(1) by blast
next
  assume "fst (spawn js s i) = Inr (Some p) \<and> render_fn p = Some f \<and>
    pluginProcessInfos (snd (spawn js s i)) i = Some info \<and> \<not> rendered info"
  then show "trace (snd (render js s i el)) = trace (snd (spawn js s i)) @ [RenderCalled i el]"
    using render_attempt(2) by blast
next
  assume "fst (spawn js s i) = Inr (Some p) \<and> render_fn p = Some f \<and>
    pluginProcessInfos (snd (spawn js s i)) i = Some info \<and> \<not> rendered info"
    and "f el (length (trace (snd (spawn js s i)))) = Returns"
  then show "pluginProcessInfos (snd (render js s i el)) i = Some (info\<lparr>rendered := True\<rparr>)"
    using render_success(1) by blast
next
  assume "fst (spawn js s i) = Inr (Some p) \<and> render_fn p = Some f \<and>
    pluginProcessInfos (snd (spawn js s i)) i = Some info \<and> \<not> rendered info"
    and "f el (length (trace (snd (spawn js s i)))) = Returns"
  then show "render js' (snd (render js s i el)) i el' = (Inr (), snd (render js s i el))"
    using render_success(2) by blast
next
  assume "fst (spawn js s i) = Inr (Some p) \<and> render_fn p = Some f \<and>
    pluginProcessInfos (snd (spawn js s i)) i = Some info \<and> \<not> rendered info"
    and "f el (length (trace (snd (spawn js s i)))) = Raises"
  then show "pluginProcessInfos (snd (render js s i el)) i = Some (info\<lparr>hasError := True\<rparr>)"
    using render_failure(1) by blast
next
  assume "fst (spawn js s i) = Inr (Some p) \<and> render_fn p = Some f \<and>
    pluginProcessInfos (snd (spawn js s i)) i = Some info \<and> \<not> rendered info"
  then show "\<not> rendered (info\<lparr>hasError := True\<rparr>)"
    by simp
next
  assume "fst (spawn js s i) = Inr (Some p) \<and> render_fn p = Some f \<and>
    pluginProcessInfos (snd (spawn js s i)) i = Some info \<and> \<not> rendered info"
    and "f el (length (trace (snd (spawn js s i)))) = Raises"
  then show "trace (snd (render js' (snd (render js s i el)) i el')) =
           trace (snd (render js s i el)) @ [RenderCalled i el']"
    using render_failure(2) by blast
next
  assume "pluginProcesses s i = Some p \<and> pluginProcessInfos s i = Some info \<and> rendered info"
  then show "render js s i el = (Inr (), s)"
    using render_rendered by blast
qed

theorem render_at_most_once_witness:
  "fst (spawn registering_source (run [] False [AddPluginToLibrary ''X'' ''c'' 5 ''u1'']) ''u1'') =
     Inr (Some sample_process) \<and>
   render_fn sample_process = Some (raises_until 3) \<and>
   raises_until 3 7 (length (trace (snd
     (spawn registering_source (run [] False [AddPluginToLibrary ''X'' ''c'' 5 ''u1'']) ''u1'')))) =
     Raises \<and>
   pluginProcessInfos (snd
     (render registering_source (run [] False [AddPluginToLibrary ''X'' ''c'' 5 ''u1'']) ''u1'' 7))
     ''u1'' = Some \<lparr>rendered = False, hasError = True\<rparr> \<and>
   trace (snd (render quiet_source (snd
     (render registering_source (run [] False [AddPluginToLibrary ''X'' ''c'' 5 ''u1'']) ''u1'' 7))
     ''u1'' 8)) =
     [Compiled ''u1'' ''c'', Invoked ''u1'' ''c'', RenderCalled ''u1'' 7, RenderCalled ''u1'' 8] \<and>
   raises_until 3 8 (length (trace (snd (spawn quiet_source
     (run [] False [AddPluginToLibrary ''X'' ''c'' 5 ''u1'', Render registering_source ''u1'' 7])
     ''u1'')))) = Returns \<and>
   pluginProcessInfos (snd (render quiet_source
     (run [] False [AddPluginToLibrary ''X'' ''c'' 5 ''u1'', Render registering_source ''u1'' 7])
     ''u1'' 8)) ''u1'' = Some \<lparr>rendered = True, hasError = True\<rparr> \<and>
   render quiet_source (snd (render quiet_source
     (run [] False [AddPluginToLibrary ''X'' ''c'' 5 ''u1'', Render registering_source ''u1'' 7])
     ''u1'' 8)) ''u1'' 9 =
     (Inr (), snd (render quiet_source
       (run [] False [AddPluginToLibrary ''X'' ''c'' 5 ''u1'', Render registering_source ''u1'' 7])
       ''u1'' 8))"
proof -
  let ?added = "run [] False [AddPluginToLibrary ''X'' ''c'' 5 ''u1'']"
  let ?tried = "run [] False [AddPluginToLibrary ''X'' ''c'' 5 ''u1'', Render registering_source ''u1'' 7]"
  let ?new = "\<lparr>rendered = False, hasError = False\<rparr>"
  let ?err = "\<lparr>rendered = False, hasError = True\<rparr>"
  have first: "fst (spawn registering_source ?added ''u1'') = Inr (Some sample_process)"
    and first_info: "pluginProcessInfos (snd (spawn registering_source ?added ''u1'')) ''u1'' = Some ?new"
    and first_trace: "trace (snd (spawn registering_source ?added ''u1'')) =
      [Compiled ''u1'' ''c'', Invoked ''u1'' ''c'']"
    by (simp_all add: run_defs)
  have second: "fst (spawn quiet_source ?tried ''u1'') = Inr (Some sample_process)"
    and second_info: "pluginProcessInfos (snd (spawn quiet_source ?tried ''u1'')) ''u1'' = Some ?err"
    and second_trace: "trace (snd (spawn quiet_source ?tried ''u1'')) =
      [Compiled ''u1'' ''c'', Invoked ''u1'' ''c'', RenderCalled ''u1'' 7]"
    by (simp_all add: run_defs)
  have cap: "render_fn sample_process = Some (raises_until 3)"
    by (simp add: sample_process_def)
  have bad: "raises_until 3 7 (length (trace (snd (spawn registering_source ?added ''u1'')))) = Raises"
    by (simp add: first_trace raises_until_def)
  have ok: "raises_until 3 8 (length (trace (snd (spawn quiet_source ?tried ''u1'')))) = Returns"
    by (simp add: second_trace raises_until_def)
  have fresh: "\<not> rendered ?new" "\<not> rendered ?err"
    by simp_all
  from first cap first_info fresh(1) bad
    render_at_most_once [of registering_source ?added "''u1''" 7 sample_process "raises_until 3"
      ?new quiet_source 8]
  have failing: "pluginProcessInfos (snd (render registering_source ?added ''u1'' 7)) ''u1'' =
       Some (?new\<lparr>hasError := True\<rparr>)"
    "trace (snd (render registering_source ?added ''u1'' 7)) =
       trace (snd (spawn registering_source ?added ''u1'')) @ [RenderCalled ''u1'' 7]"
    "trace (snd (render quiet_source (snd (render registering_source ?added ''u1'' 7)) ''u1'' 8)) =
       trace (snd (render registering_source ?added ''u1'' 7)) @ [RenderCalled ''u1'' 8]"
    by blast+
  from second cap second_info fresh(2) ok
    render_at_most_once [of quiet_source ?tried "''u1''" 8 sample_process "raises_until 3"
      ?err quiet_source 9]
  have succeeding: "pluginProcessInfos (snd (render quiet_source ?tried ''u1'' 8)) ''u1'' =
       Some (?err\<lparr>rendered := True\<rparr>)"
    "render quiet_source (snd (render quiet_source ?tried ''u1'' 8)) ''u1'' 9 =
       (Inr (), snd (render quiet_source ?tried ''u1'' 8))"
    by blast+
  show ?thesis
    by (simp only: first cap bad ok failing succeeding first_trace simp_thms)
      (simp add: raises_until_def)
qed

subsection \<open>Registry and bookkeeping\<close>

text \<open>
  Claim C5, as amended. Take any manager reached from a new one by a sequence of the
  public operations and of late calls of \<open>register\<close> closures. An identity whose
  closure was not called late in that sequence, and that has an entry in the registry,
  has a bookkeeping record.
\<close>

theorem registry_entry_has_record:
  "\<not> list_ex (registers_late i) ops \<and> pluginProcesses (run gm ui ops) i \<noteq> None \<longrightarrow>
     pluginProcessInfos (run gm ui ops) i \<noteq> None"
  using run_record [of i ops gm ui] by (simp add: live_has_record_def)

theorem registry_entry_has_record_witness:
  "\<not> list_ex (registers_late ''u1'')
       [AddPluginToLibrary ''X'' ''c'' 5 ''u1'', Spawn raising_source ''u1'',
        AddPluginToLibrary ''Z'' ''e'' 6 ''u2'', Spawn registering_source ''u2'', Destroy ''u2'',
        LateRegister ''u2'' bare_process] \<and>
   pluginProcesses
     (run [] False [AddPluginToLibrary ''X'' ''c'' 5 ''u1'', Spawn raising_source ''u1'',
        AddPluginToLibrary ''Z'' ''e'' 6 ''u2'', Spawn registering_source ''u2'', Destroy ''u2'',
        LateRegister ''u2'' bare_process])
     ''u1'' = Some sample_process \<and>
   pluginProcessInfos
     (run [] False [AddPluginToLibrary ''X'' ''c'' 5 ''u1'', Spawn raising_source ''u1'',
        AddPluginToLibrary ''Z'' ''e'' 6 ''u2'', Spawn registering_source ''u2'', Destroy ''u2'',
        LateRegister ''u2'' bare_process])
     ''u1'' \<noteq> None"
proof -
  let ?ops = "[AddPluginToLibrary ''X'' ''c'' 5 ''u1'', Spawn raising_source ''u1'',
        AddPluginToLibrary ''Z'' ''e'' 6 ''u2'', Spawn registering_source ''u2'', Destroy ''u2'',
        LateRegister ''u2'' bare_process]"
  have quiet: "\<not> list_ex (registers_late ''u1'') ?ops"
    by simp
  have live: "pluginProcesses (run [] False ?ops) ''u1'' = Some sample_process"
    by (simp add: run_defs)
  with quiet registry_entry_has_record [of "''u1''" ?ops "[]" False]
  show ?thesis
    by simp
qed

text \<open>
  Claim C5 as stated (an entry in the registry if and only if a bookkeeping record) fails:
  after adding a plugin whose source registers nothing and spawning it, the identity has
  a bookkeeping record and no entry in the registry.
\<close>

theorem record_without_registry_entry:
  "pluginProcessInfos
     (run [] False [AddPluginToLibrary ''X'' ''c'' 5 ''u1'', Spawn quiet_source ''u1''])
     ''u1'' = Some \<lparr>rendered = False, hasError = False\<rparr> \<and>
   pluginProcesses
     (run [] False [AddPluginToLibrary ''X'' ''c'' 5 ''u1'', Spawn quiet_source ''u1''])
     ''u1'' = None \<and>
   (pluginProcesses
     (run [] False [AddPluginToLibrary ''X'' ''c'' 5 ''u1'', Spawn quiet_source ''u1''])
     ''u1'' \<noteq> None) \<noteq>
   (pluginProcessInfos
     (run [] False [AddPluginToLibrary ''X'' ''c'' 5 ''u1'', Spawn quiet_source ''u1''])
     ''u1'' \<noteq> None)"
  by (simp add: run_defs)

subsection \<open>Overwriting a plugin\<close>




subsection \<open>Deleting a plugin\<close>

text \<open>
  Claim C7, as amended. Take a manager reached by public operations and late calls of
  \<open>register\<close> closures. \<open>deletePlugin\<close> returns normally when the closure of the
  identity was never called late and, more generally, when the identity has a bookkeeping
  record or no live instance. After \<open>deletePlugin\<close> the library holds the definitions it
  held before other than those with the deleted identity, so none with that identity
  (\<open>getLibrary\<close> returns copies of exactly these, and when \<open>deletePlugin\<close> has returned
  normally the same is saved to disk), and the registry holds no instance for the
  identity. The bookkeeping record of the identity is removed when the identity had a
  live instance; without a live instance the record, if any, is left as it was. So when
  the identity had a live instance or had no record, it is absent from
  \<open>getAllProcessInfos\<close> afterwards.
\<close>

theorem deletePlugin_removes:
  "(\<not> list_ex (registers_late i) ops \<longrightarrow> fst (deletePlugin i (run gm ui ops)) = Inr ()) \<and>
   ((pluginProcesses (run gm ui ops) i \<noteq> None \<longrightarrow> pluginProcessInfos (run gm ui ops) i \<noteq> None) \<longrightarrow>
      fst (deletePlugin i (run gm ui ops)) = Inr ()) \<and>
   getPluginFromLibrary (snd (deletePlugin i (run gm ui ops))) i = None \<and>
   library_values (snd (deletePlugin i (run gm ui ops))) =
     filter (\<lambda>p. plugin_id p \<noteq> i) (library_values (run gm ui ops)) \<and>
   (fst (deletePlugin i (run gm ui ops)) = Inr () \<longrightarrow>
      savedPlugins (snd (deletePlugin i (run gm ui ops))) =
        library_values (snd (deletePlugin i (run gm ui ops)))) \<and>
   (\<exists>copies. fst (getLibrary (snd (deletePlugin i (run gm ui ops)))) = Inr copies \<and>
      map (heap (snd (getLibrary (snd (deletePlugin i (run gm ui ops)))))) copies =
        filter (\<lambda>p. plugin_id p \<noteq> i) (library_values (run gm ui ops))) \<and>
   pluginProcesses (snd (deletePlugin i (run gm ui ops))) i = None \<and>
   pluginProcessInfos (snd (deletePlugin i (run gm ui ops))) i =
     (if pluginProcesses (run gm ui ops) i = None then pluginProcessInfos (run gm ui ops) i
      else None) \<and>
   (pluginProcesses (run gm ui ops) i \<noteq> None \<or> pluginProcessInfos (run gm ui ops) i = None \<longrightarrow>
      pluginProcessInfos (snd (deletePlugin i (run gm ui ops))) i = None \<and>
      i \<notin> dom (getAllProcessInfos (snd (deletePlugin i (run gm ui ops)))))"
proof -
  let ?s = "run gm ui ops"
  let ?s' = "snd (deletePlugin i ?s)"
  have quiet: "\<not> list_ex (registers_late i) ops \<longrightarrow> fst (deletePlugin i ?s) = Inr ()"
    using run_record [of i ops gm ui] deletePlugin_returns(1) [of ?s i]
    by (simp add: live_has_record_def)
  have guarded: "(pluginProcesses ?s i \<noteq> None \<longrightarrow> pluginProcessInfos ?s i \<noteq> None) \<longrightarrow>
      fst (deletePlugin i ?s) = Inr ()"
    using deletePlugin_returns(1) [of ?s i] by simp
  have saved: "fst (deletePlugin i ?s) = Inr () \<longrightarrow> savedPlugins ?s' = library_values ?s'"
    using deletePlugin_saved [of i ?s] by simp
  have "?s' = run gm ui (ops @ [DeletePlugin i])"
    by (simp add: run_snoc)
  then have alloc': "library_allocated ?s'"
    by (simp only: run_allocated)
  have vals: "library_values ?s' = filter (\<lambda>p. plugin_id p \<noteq> i) (library_values ?s)"
    by (rule deletePlugin_values)
  have gone: "getPluginFromLibrary ?s' i = None"
    by (simp add: getPluginFromLibrary_values vals)
  have copies: "\<exists>copies. fst (getLibrary ?s') = Inr copies \<and>
      map (heap (snd (getLibrary ?s'))) copies =
        filter (\<lambda>p. plugin_id p \<noteq> i) (library_values ?s)"
    using getLibrary_values [OF alloc'] vals by auto
  show ?thesis
    using quiet guarded saved vals gone copies
    by (auto simp: deletePlugin_fields getAllProcessInfos_eq)
qed

theorem deletePlugin_removes_witness:
  "pluginProcesses
     (run [] False [AddPluginToLibrary ''X'' ''c'' 5 ''u1'', Render registering_source ''u1'' 7,
        Render registering_source ''u1'' 7]) ''u1'' = Some sample_process \<and>
   pluginProcessInfos
     (run [] False [AddPluginToLibrary ''X'' ''c'' 5 ''u1'', Render registering_source ''u1'' 7,
        Render registering_source ''u1'' 7]) ''u1'' = Some \<lparr>rendered = True, hasError = True\<rparr> \<and>
   fst (deletePlugin ''u1''
     (run [] False [AddPluginToLibrary ''X'' ''c'' 5 ''u1'', Render registering_source ''u1'' 7,
        Render registering_source ''u1'' 7])) = Inr () \<and>
   library_values (snd (deletePlugin ''u1''
     (run [] False [AddPluginToLibrary ''X'' ''c'' 5 ''u1'', Render registering_source ''u1'' 7,
        Render registering_source ''u1'' 7]))) = [] \<and>
   pluginProcesses (snd (deletePlugin ''u1''
     (run [] False [AddPluginToLibrary ''X'' ''c'' 5 ''u1'', Render registering_source ''u1'' 7,
        Render registering_source ''u1'' 7]))) ''u1'' = None \<and>
   ''u1'' \<notin> dom (getAllProcessInfos (snd (deletePlugin ''u1''
     (run [] False [AddPluginToLibrary ''X'' ''c'' 5 ''u1'', Render registering_source ''u1'' 7,
        Render registering_source ''u1'' 7]))))"
proof -
  let ?ops = "[AddPluginToLibrary ''X'' ''c'' 5 ''u1'', Render registering_source ''u1'' 7,
        Render registering_source ''u1'' 7]"
  have live: "pluginProcesses (run [] False ?ops) ''u1'' = Some sample_process"
    by (simp add: run_defs)
  have info: "pluginProcessInfos (run [] False ?ops) ''u1'' = Some \<lparr>rendered = True, hasError = True\<rparr>"
    by (simp add: run_defs)
  have lib: "library_values (run [] False ?ops) =
      [\<lparr>plugin_id = ''u1'', name = ''X'', code = ''c'', lastEdited = 5, enabled = True\<rparr>]"
    by (simp add: run_defs library_values_def render_fields)
  from live info lib deletePlugin_removes [where i = "''u1''" and gm = "[]" and ui = False and ops = ?ops]
  show ?thesis
    by simp
qed

text \<open>
  Claim C7 as stated (no bookkeeping record after \<open>deletePlugin\<close>, for every identity)
  fails: a plugin whose source registers nothing is added, spawned and deleted; it is
  gone from the library, and its bookkeeping record is still there and is reported by
  \<open>getAllProcessInfos\<close>.
\<close>

theorem deletePlugin_leaves_record:
  "pluginProcessInfos
     (run [] False [AddPluginToLibrary ''X'' ''c'' 5 ''u1'', Spawn quiet_source ''u1'',
        DeletePlugin ''u1'']) ''u1'' = Some \<lparr>rendered = False, hasError = False\<rparr> \<and>
   getAllProcessInfos
     (run [] False [AddPluginToLibrary ''X'' ''c'' 5 ''u1'', Spawn quiet_source ''u1'',
        DeletePlugin ''u1'']) ''u1'' = Some \<lparr>rendered = False, hasError = False\<rparr> \<and>
   library_values
     (run [] False [AddPluginToLibrary ''X'' ''c'' 5 ''u1'', Spawn quiet_source ''u1'',
        DeletePlugin ''u1'']) = []"
  by (simp add: run_more)

subsection \<open>Copies and shared objects\<close>

text \<open>
  The objects \<open>getLibrary\<close> returns are new: a caller's assignment to one of them does
  not change the library.
\<close>

lemma getLibrary_copies_isolated:
  assumes allocated: "library_allocated s" and copies: "fst (getLibrary s) = Inr bs"
    and mine: "b \<in> set bs"
  shows "library_values (caller_assigns b f (snd (getLibrary s))) = library_values (snd (getLibrary s))"
proof -
  obtain as s' where al: "alloc_plugins (library_values s) s = (as, s')"
    by (cases "alloc_plugins (library_values s) s")
  have eq: "getLibrary s = (Inr as, s')"
    using allocated al
    by (simp add: getLibrary_def library_values_def library_allocated_def copy_plugins_alloc)
  with copies have "bs = as"
    by simp
  with mine alloc_plugins_addrs [OF al] have fresh: "nextAddr s \<le> b"
    by simp
  have lib: "pluginLibrary s' = pluginLibrary s"
    using alloc_plugins_frame [OF al] by simp
  have "map ((heap s')(b := f (heap s' b))) (pluginLibrary s) = map (heap s') (pluginLibrary s)"
    using allocated fresh by (intro map_heap_fresh [of _ "nextAddr s"]) (simp_all add: library_allocated_def)
  then show ?thesis
    by (simp add: eq caller_assigns_def library_values_def lib)
qed

text \<open>
  Claim C8, at a failing input. One plugin named \<open>X\<close> is added to a new manager.
  \<open>getPluginFromLibrary\<close> returns the address of the library's own object, so after the
  caller assigns \<open>Y\<close> to the \<open>name\<close> of what it was handed, the library holds the name
  \<open>Y\<close>, \<open>getLibrary\<close> returns a copy with the name \<open>Y\<close>, and the disk still holds
  \<open>X\<close>. The same assignment to the object that \<open>addPluginToLibrary\<close> returned (a copy)
  leaves the library as it was.
\<close>

theorem getPluginFromLibrary_shares_object:
  "getPluginFromLibrary (run [] False [AddPluginToLibrary ''X'' ''c'' 5 ''u1'']) ''u1'' = Some 0 \<and>
   library_values (run [] False [AddPluginToLibrary ''X'' ''c'' 5 ''u1'']) =
     [\<lparr>plugin_id = ''u1'', name = ''X'', code = ''c'', lastEdited = 5, enabled = True\<rparr>] \<and>
   library_values (caller_assigns 0 (assign_name ''Y'')
       (run [] False [AddPluginToLibrary ''X'' ''c'' 5 ''u1''])) =
     [\<lparr>plugin_id = ''u1'', name = ''Y'', code = ''c'', lastEdited = 5, enabled = True\<rparr>] \<and>
   fst (getLibrary (caller_assigns 0 (assign_name ''Y'')
       (run [] False [AddPluginToLibrary ''X'' ''c'' 5 ''u1'']))) = Inr [2] \<and>
   heap (snd (getLibrary (caller_assigns 0 (assign_name ''Y'')
       (run [] False [AddPluginToLibrary ''X'' ''c'' 5 ''u1''])))) 2 =
     \<lparr>plugin_id = ''u1'', name = ''Y'', code = ''c'', lastEdited = 5, enabled = True\<rparr> \<and>
   savedPlugins (caller_assigns 0 (assign_name ''Y'')
       (run [] False [AddPluginToLibrary ''X'' ''c'' 5 ''u1''])) =
     [\<lparr>plugin_id = ''u1'', name = ''X'', code = ''c'', lastEdited = 5, enabled = True\<rparr>] \<and>
   fst (addPluginToLibrary ''X'' ''c'' 5 ''u1'' (constructor [] False)) = Inr 1 \<and>
   library_values (caller_assigns 1 (assign_name ''Y'')
       (run [] False [AddPluginToLibrary ''X'' ''c'' 5 ''u1''])) =
     [\<lparr>plugin_id = ''u1'', name = ''X'', code = ''c'', lastEdited = 5, enabled = True\<rparr>]"
  by (simp add: run_defs library_values_def caller_assigns_def assign_name_def getLibrary_def
      copy_plugin_eq alloc_def)

subsection \<open>Loading the library\<close>

text \<open>
  Claim C9. Let the manager be one reached by public operations (and late calls of
  \<open>register\<close> closures) in which the item \<open>hasAddedDefaultPlugins\<close> is unset. Then \<open>load\<close> returns normally; the library after
  it is the library before it followed by exactly two definitions, named \<open>README\<close> and
  \<open>Artifacts Finder\<close>, with the two example sources, enabled; the disk holds the same
  definitions as the library; and the item is set. A second \<open>load\<close> (whatever the clock
  and the identities drawn) leaves the library and the disk with the same definitions: the
  two are not added again.
\<close>

theorem load_seeds_once:
  "\<not> hasAddedDefaultPlugins (run gm ui ops) \<longrightarrow>
     fst (load readme finder now1 uuid1 now2 uuid2 (run gm ui ops)) = Inr () \<and>
     library_values (snd (load readme finder now1 uuid1 now2 uuid2 (run gm ui ops))) =
       library_values (run gm ui ops) @
         [\<lparr>plugin_id = uuid1, name = ''README'', code = readme, lastEdited = now1, enabled = True\<rparr>,
          \<lparr>plugin_id = uuid2, name = ''Artifacts Finder'', code = finder, lastEdited = now2,
            enabled = True\<rparr>] \<and>
     savedPlugins (snd (load readme finder now1 uuid1 now2 uuid2 (run gm ui ops))) =
       library_values (snd (load readme finder now1 uuid1 now2 uuid2 (run gm ui ops))) \<and>
     hasAddedDefaultPlugins (snd (load readme finder now1 uuid1 now2 uuid2 (run gm ui ops))) \<and>
     fst (load readme' finder' now1' uuid1' now2' uuid2'
       (snd (load readme finder now1 uuid1 now2 uuid2 (run gm ui ops)))) = Inr () \<and>
     library_values (snd (load readme' finder' now1' uuid1' now2' uuid2'
       (snd (load readme finder now1 uuid1 now2 uuid2 (run gm ui ops))))) =
       library_values (snd (load readme finder now1 uuid1 now2 uuid2 (run gm ui ops))) \<and>
     savedPlugins (snd (load readme' finder' now1' uuid1' now2' uuid2'
       (snd (load readme finder now1 uuid1 now2 uuid2 (run gm ui ops))))) =
       savedPlugins (snd (load readme finder now1 uuid1 now2 uuid2 (run gm ui ops)))"
proof
  let ?s = "run gm ui ops"
  let ?s' = "snd (load readme finder now1 uuid1 now2 uuid2 ?s)"
  assume unset: "\<not> hasAddedDefaultPlugins ?s"
  have allocated: "library_allocated ?s"
    by (simp add: run_allocated)
  note first = load_first [OF allocated unset, of readme finder now1 uuid1 now2 uuid2]
  note again = load_again [OF first(3) first(2), of readme' finder' now1' uuid1' now2' uuid2']
  from first again load_returns
  show "fst (load readme finder now1 uuid1 now2 uuid2 ?s) = Inr () \<and>
     library_values ?s' =
       library_values ?s @
         [\<lparr>plugin_id = uuid1, name = ''README'', code = readme, lastEdited = now1, enabled = True\<rparr>,
          \<lparr>plugin_id = uuid2, name = ''Artifacts Finder'', code = finder, lastEdited = now2,
            enabled = True\<rparr>] \<and>
     savedPlugins ?s' = library_values ?s' \<and>
     hasAddedDefaultPlugins ?s' \<and>
     fst (load readme' finder' now1' uuid1' now2' uuid2' ?s') = Inr () \<and>
     library_values (snd (load readme' finder' now1' uuid1' now2' uuid2' ?s')) = library_values ?s' \<and>
     savedPlugins (snd (load readme' finder' now1' uuid1' now2' uuid2' ?s')) = savedPlugins ?s'"
    by simp
qed

theorem load_seeds_once_witness:
  "\<not> hasAddedDefaultPlugins (run [] False []) \<and>
   library_values (snd (load ''readme src'' ''finder src'' 10 ''u1'' 11 ''u2'' (run [] False []))) =
     [\<lparr>plugin_id = ''u1'', name = ''README'', code = ''readme src'', lastEdited = 10, enabled = True\<rparr>,
      \<lparr>plugin_id = ''u2'', name = ''Artifacts Finder'', code = ''finder src'', lastEdited = 11,
        enabled = True\<rparr>] \<and>
   savedPlugins (snd (load ''readme src'' ''finder src'' 10 ''u1'' 11 ''u2'' (run [] False []))) =
     [\<lparr>plugin_id = ''u1'', name = ''README'', code = ''readme src'', lastEdited = 10, enabled = True\<rparr>,
      \<lparr>plugin_id = ''u2'', name = ''Artifacts Finder'', code = ''finder src'', lastEdited = 11,
        enabled = True\<rparr>] \<and>
   hasAddedDefaultPlugins
     (snd (load ''readme src'' ''finder src'' 10 ''u1'' 11 ''u2'' (run [] False []))) \<and>
   library_values (snd (load ''readme src'' ''finder src'' 20 ''u3'' 21 ''u4''
     (snd (load ''readme src'' ''finder src'' 10 ''u1'' 11 ''u2'' (run [] False []))))) =
     [\<lparr>plugin_id = ''u1'', name = ''README'', code = ''readme src'', lastEdited = 10, enabled = True\<rparr>,
      \<lparr>plugin_id = ''u2'', name = ''Artifacts Finder'', code = ''finder src'', lastEdited = 11,
        enabled = True\<rparr>]"
proof -
  have unset: "\<not> hasAddedDefaultPlugins (run [] False [])"
    and empty: "library_values (run [] False []) = []"
    by (simp_all add: run_def constructor_def library_values_def)
  from unset empty
    load_seeds_once [of "[]" False "[]" "''readme src''" "''finder src''" 10 "''u1''" 11 "''u2''"
      "''readme src''" "''finder src''" 20 "''u3''" 21 "''u4''"]
  show ?thesis
    by simp
qed

subsection \<open>Process info without a record\<close>

text \<open>
  Claim C10. For a plugin identity with no bookkeeping record, \<open>getProcessInfo\<close> does
  not return an absent result: it throws the \<open>SyntaxError\<close> of \<open>JSON.parse\<close> on
  \<open>undefined\<close>. That is so in particular after a \<open>spawn\<close> of an identity that is not
  in the library, which creates no record. \<open>getProcessInfo\<close> throws exactly for the
  identities that are not keys of \<open>getAllProcessInfos\<close>; for a key, it returns the
  record found there.
\<close>

theorem getProcessInfo_without_record:
  "(pluginProcessInfos s i = None \<longrightarrow>
      getProcessInfo s i = Inl SyntaxError \<and> getProcessInfo s i \<noteq> Inr None) \<and>
   (pluginProcessInfos s i = None \<and> pluginProcesses s i = None \<and> getPluginFromLibrary s i = None \<longrightarrow>
      getProcessInfo (snd (spawn js s i)) i = Inl SyntaxError) \<and>
   (getProcessInfo s i = Inl SyntaxError) = (i \<notin> dom (getAllProcessInfos s)) \<and>
   (i \<in> dom (getAllProcessInfos s) \<longrightarrow> getProcessInfo s i = Inr (getAllProcessInfos s i))"
  by (cases "pluginProcessInfos s i")
    (auto simp: getProcessInfo_def copy_cases getAllProcessInfos_eq spawn_unknown)

theorem getProcessInfo_without_record_witness:
  "pluginProcessInfos (constructor [] False) ''u1'' = None \<and>
   pluginProcesses (constructor [] False) ''u1'' = None \<and>
   getPluginFromLibrary (constructor [] False) ''u1'' = None \<and>
   getProcessInfo (constructor [] False) ''u1'' = Inl SyntaxError \<and>
   getProcessInfo (snd (spawn quiet_source (constructor [] False) ''u1'')) ''u1'' = Inl SyntaxError \<and>
   ''u1'' \<notin> dom (getAllProcessInfos (constructor [] False))"
proof -
  have h: "pluginProcessInfos (constructor [] False) ''u1'' = None"
    "pluginProcesses (constructor [] False) ''u1'' = None"
    "getPluginFromLibrary (constructor [] False) ''u1'' = None"
    by (simp_all add: constructor_def getPluginFromLibrary_def)
  with getProcessInfo_without_record [of "constructor [] False" "''u1''" quiet_source]
  show ?thesis
    by blast
qed

end
